theory Spec2Isabelle
  imports Complex_Main "HOL-Library.AList" "HOL-Library.Sublist"
begin

section \<open>The SP-API client core: values shared by the modules\<close>

text \<open>
  The model follows \<^verbatim>\<open>src/lib/sp-api/auth.ts\<close> (two versions of it are in the
  repository: the named file, and a second one, \<^verbatim>\<open>unnamed/part_007\<close>, that adds the
  STS AssumeRole exchange; the definitions taken from the second carry the suffix
  \<open>_part007\<close>) and the client module with \<^verbatim>\<open>checkRateLimit\<close> and \<^verbatim>\<open>spApiRequest\<close>
  (in the sources it follows \<^verbatim>\<open>src/lib/utils.ts\<close> from line 139 on, and the line
  numbers given for it are those of that file). The client imports \<^verbatim>\<open>./auth\<close>; the
  executor is modelled with the functions of the named file.

  A JavaScript exception is a value: \<open>JsError m\<close> is an instance of \<^verbatim>\<open>Error\<close> with
  message \<open>m\<close>, \<open>NonErrorValue\<close> anything else that was thrown. An \<^verbatim>\<open>async\<close> function
  that can reject returns \<open>thrown + 'a\<close> with \<open>Inl\<close> the rejection. \<^verbatim>\<open>undefined\<close> is
  \<open>None\<close>.
\<close>

datatype thrown = JsError string | NonErrorValue

text \<open>
  An HTTP response as \<^verbatim>\<open>fetch\<close> resolves it, with the text that \<^verbatim>\<open>response.text()\<close>
  reads from it; \<^verbatim>\<open>response.ok\<close> is a status in 200..299.
\<close>

record response =
  status :: nat
  bodyText :: string

definition ok :: "response \<Rightarrow> bool" where
  "ok r = (200 \<le> status r \<and> status r \<le> 299)"

datatype fetchResult = Rejected thrown | Responded response

text \<open>Truthiness of a value read from \<^verbatim>\<open>process.env\<close>: a string or \<^verbatim>\<open>undefined\<close>.\<close>

definition truthyStr :: "string option \<Rightarrow> bool" where
  "truthyStr v = (case v of None \<Rightarrow> False | Some s \<Rightarrow> s \<noteq> [])"

text \<open>\<^verbatim>\<open>a || b\<close> on such values.\<close>

definition orElse :: "string option \<Rightarrow> string option \<Rightarrow> string option" where
  "orElse a b = (if truthyStr a then a else b)"

text \<open>A value of \<^verbatim>\<open>process.env\<close> as \<^verbatim>\<open>URLSearchParams\<close> stringifies it.\<close>

definition formValue :: "string option \<Rightarrow> string" where
  "formValue v = (case v of None \<Rightarrow> ''undefined'' | Some s \<Rightarrow> s)"

section \<open>auth.ts: data\<close>

record tokenResponse =
  access_token :: string
  refresh_token :: string
  token_type :: string
  expires_in :: int

record cachedToken =
  accessToken :: string
  expiresAt :: int

record credentials =
  accessKeyId :: "string option"
  secretAccessKey :: "string option"
  sessionToken :: "string option"

record validation =
  valid :: bool
  missing :: "string list"

section \<open>The client module: data\<close>

datatype httpMethod = GET | POST | PUT | DELETE | PATCH

datatype json =
    JNull | JBool bool | JNum rat | JStr string | JArr "json list" | JObj "(string \<times> json) list"

datatype queryValue = QUndefined | QStr string | QArr "string list"

text \<open>\<^verbatim>\<open>SPAPIRequestOptions\<close>; an optional field that is left out is \<open>None\<close>.\<close>

record requestOptions =
  http_method :: "httpMethod option"
  path :: string
  query :: "(string \<times> queryValue) list option"
  body :: "json option"
  headers :: "(string \<times> string) list option"

text \<open>\<^verbatim>\<open>SPAPIResponse\<close>.\<close>

record envelope =
  success :: bool
  data :: "json option"
  error :: "string option"
  statusCode :: "nat option"

text \<open>\<^verbatim>\<open>aws4.Request\<close> as the client fills it.\<close>

record aws4Request =
  aws_host :: string
  aws_method :: httpMethod
  aws_path :: string
  aws_headers :: "(string \<times> string) list"
  service :: string
  region :: string
  aws_body :: "string option"

text \<open>The arguments of the \<^verbatim>\<open>fetch\<close> call to the Selling Partner API.\<close>

record apiCall =
  url :: string
  call_method :: httpMethod
  call_headers :: "(string \<times> string) list"
  call_body :: "string option"

record rateLimit =
  requests :: rat
  period :: int

section \<open>State, effects and the world outside\<close>

text \<open>
  The effects a call performs, in the order it performs them. The trace is a ghost
  variable: the code never reads it.
\<close>

datatype event =
    CallGetAccessToken
  | IdpExchange "(string \<times> string) list"
  | CallGetSTSCredentials
  | StsExchange "(string \<times> string) list"
  | CallCheckRateLimit string
  | Suspend "int option"
  | Aws4Sign credentials
  | ApiFetch apiCall

text \<open>
  The module-level variables \<^verbatim>\<open>cachedToken\<close> and \<^verbatim>\<open>requestTimestamps\<close>, and what
  \<^verbatim>\<open>Date.now()\<close> returns.
\<close>

record world =
  cachedToken :: "cachedToken option"
  requestTimestamps :: "string \<Rightarrow> int list option"
  clock :: int
  trace :: "event list"

text \<open>
  What one call meets outside the modules: the configuration, how the remote parties
  answer and how long they take, how late a timer fires, and the library functions the
  repository does not hold (\<^verbatim>\<open>response.json()\<close>, \<^verbatim>\<open>String.match\<close> on the three tag
  patterns, \<^verbatim>\<open>new URL(s).host\<close>, \<^verbatim>\<open>URLSearchParams.toString\<close>, \<^verbatim>\<open>JSON.stringify\<close>,
  \<^verbatim>\<open>JSON.parse\<close>, \<^verbatim>\<open>aws4.sign\<close>).
\<close>

record outside =
  env :: "string \<Rightarrow> string option"
  idp :: "(string \<times> string) list \<Rightarrow> fetchResult"
  idpLatency :: nat
  tokenJson :: "string \<Rightarrow> thrown + tokenResponse"
  sts :: "(string \<times> string) list \<Rightarrow> fetchResult"
  stsLatency :: nat
  xmlCapture :: "string \<Rightarrow> string \<Rightarrow> string option"
  timerLag :: nat
  urlHost :: "string \<Rightarrow> thrown + string"
  urlSearchParams :: "(string \<times> string) list \<Rightarrow> string"
  jsonStringify :: "json \<Rightarrow> thrown + string"
  jsonParse :: "string \<Rightarrow> json option"
  aws4sign :: "aws4Request \<Rightarrow> credentials \<Rightarrow> thrown + aws4Request"
  api :: "apiCall \<Rightarrow> fetchResult"
  apiLatency :: nat

definition logEvent :: "event \<Rightarrow> world \<Rightarrow> world" where
  "logEvent e w = w\<lparr>trace := trace w @ [e]\<rparr>"

definition elapse :: "nat \<Rightarrow> world \<Rightarrow> world" where
  "elapse d w = w\<lparr>clock := clock w + int d\<rparr>"

section \<open>auth.ts: the token manager\<close>

text \<open>
  \<^verbatim>\<open>getAccessToken\<close>, lines 24 to 58 (the two versions differ in the last line only,
  which returns the same string). The first \<^verbatim>\<open>Date.now()\<close> is read before the
  exchange, the second after it.
\<close>

definition refreshForm :: "outside \<Rightarrow> (string \<times> string) list" where
  "refreshForm x =
     [(''grant_type'', ''refresh_token''),
      (''refresh_token'', formValue (env x ''REFRESH_TOKEN'')),
      (''client_id'', formValue (env x ''LWA_CLIENT_ID'')),
      (''client_secret'', formValue (env x ''LWA_CLIENT_SECRET''))]"

definition getAccessToken :: "outside \<Rightarrow> world \<Rightarrow> (thrown + string) \<times> world" where
  "getAccessToken x w0 =
     (let w = logEvent CallGetAccessToken w0 in
      case (case cachedToken w of
              None \<Rightarrow> None
            | Some c \<Rightarrow> if expiresAt c > clock w + 60000 then Some (accessToken c) else None) of
        Some tok \<Rightarrow> (Inr tok, w)
      | None \<Rightarrow>
          (let w1 = elapse (idpLatency x) (logEvent (IdpExchange (refreshForm x)) w) in
           case idp x (refreshForm x) of
             Rejected e \<Rightarrow> (Inl e, w1)
           | Responded r \<Rightarrow>
               if \<not> ok r
               then (Inl (JsError (''Failed to refresh token: '' @ bodyText r)), w1)
               else (case tokenJson x (bodyText r) of
                       Inl e \<Rightarrow> (Inl e, w1)
                     | Inr d \<Rightarrow>
                         (Inr (access_token d),
                          w1\<lparr>cachedToken :=
                               Some \<lparr>accessToken = access_token d,
                                     expiresAt = clock w1 + expires_in d * 1000\<rparr>\<rparr>))))"

section \<open>auth.ts: the signing credentials\<close>

text \<open>\<^verbatim>\<open>getSTSCredentials\<close> of the named file, lines 64 to 82.\<close>

definition getSTSCredentials :: "outside \<Rightarrow> world \<Rightarrow> (thrown + credentials) \<times> world" where
  "getSTSCredentials x w0 =
     (let w = logEvent CallGetSTSCredentials w0 in
      if truthyStr (env x ''AWS_ACCESS_KEY_ID'') \<and> truthyStr (env x ''AWS_SECRET_ACCESS_KEY'')
      then (Inr \<lparr>accessKeyId = env x ''AWS_ACCESS_KEY_ID'',
                 secretAccessKey = env x ''AWS_SECRET_ACCESS_KEY'',
                 sessionToken = None\<rparr>, w)
      else (Inr \<lparr>accessKeyId = Some '''', secretAccessKey = Some '''', sessionToken = None\<rparr>, w))"

text \<open>\<^verbatim>\<open>hasAWSCredentials\<close>, lines 87 to 89. The client never calls it.\<close>

definition hasAWSCredentials :: "outside \<Rightarrow> bool" where
  "hasAWSCredentials x =
     (truthyStr (env x ''AWS_ACCESS_KEY_ID'') \<and> truthyStr (env x ''AWS_SECRET_ACCESS_KEY''))"

text \<open>
  \<^verbatim>\<open>getSTSCredentials\<close> of the second version, lines 64 to 113. The non-null
  assertion \<^verbatim>\<open>process.env.AWS_ACCESS_KEY_ID!\<close> is erased at run time, so an unset
  key is returned as \<^verbatim>\<open>undefined\<close>.
\<close>

definition staticKeyPair :: "outside \<Rightarrow> credentials" where
  "staticKeyPair x =
     \<lparr>accessKeyId = env x ''AWS_ACCESS_KEY_ID'',
      secretAccessKey = env x ''AWS_SECRET_ACCESS_KEY'',
      sessionToken = None\<rparr>"

definition assumeRoleForm :: "outside \<Rightarrow> (string \<times> string) list" where
  "assumeRoleForm x =
     [(''Action'', ''AssumeRole''),
      (''Version'', ''2011-06-15''),
      (''RoleArn'', formValue (env x ''AWS_ROLE_ARN'')),
      (''RoleSessionName'', ''sp-api-session''),
      (''DurationSeconds'', ''3600'')]"

definition getSTSCredentials_part007 ::
  "outside \<Rightarrow> world \<Rightarrow> (thrown + credentials) \<times> world" where
  "getSTSCredentials_part007 x w0 =
     (let w = logEvent CallGetSTSCredentials w0 in
      if \<not> truthyStr (env x ''AWS_ROLE_ARN'')
         \<or> env x ''AWS_ROLE_ARN'' = Some ''arn:aws:iam::YOUR_ACCOUNT:role/YOUR_ROLE''
      then (Inr (staticKeyPair x), w)
      else
        (case getAccessToken x w of
           (Inl e, w1) \<Rightarrow> (Inl e, w1)
         | (Inr tok, w1) \<Rightarrow>
             (let w2 = elapse (stsLatency x) (logEvent (StsExchange (assumeRoleForm x)) w1) in
              case sts x (assumeRoleForm x) of
                Rejected e \<Rightarrow> (Inl e, w2)
              | Responded r \<Rightarrow>
                  if \<not> ok r then (Inr (staticKeyPair x), w2)
                  else
                    (Inr \<lparr>accessKeyId =
                            orElse (xmlCapture x ''AccessKeyId'' (bodyText r))
                              (env x ''AWS_ACCESS_KEY_ID''),
                          secretAccessKey =
                            orElse (xmlCapture x ''SecretAccessKey'' (bodyText r))
                              (env x ''AWS_SECRET_ACCESS_KEY''),
                          sessionToken = xmlCapture x ''SessionToken'' (bodyText r)\<rparr>, w2))))"

section \<open>auth.ts: validation of the configuration\<close>

text \<open>\<^verbatim>\<open>validateCredentials\<close> of the named file (lines 94 to 109) and of the second
  version (lines 118 to 135), which requires the AWS key pair too.\<close>

definition required :: "string list" where
  "required =
     [''LWA_CLIENT_ID'', ''LWA_CLIENT_SECRET'', ''REFRESH_TOKEN'', ''SELLER_ID'',
      ''MARKETPLACE_ID'']"

definition validateCredentials :: "outside \<Rightarrow> validation" where
  "validateCredentials x =
     (let missing = filter (\<lambda>key. \<not> truthyStr (env x key)) required
      in \<lparr>valid = (length missing = 0), missing = missing\<rparr>)"

definition required_part007 :: "string list" where
  "required_part007 =
     [''LWA_CLIENT_ID'', ''LWA_CLIENT_SECRET'', ''REFRESH_TOKEN'', ''AWS_ACCESS_KEY_ID'',
      ''AWS_SECRET_ACCESS_KEY'', ''SELLER_ID'', ''MARKETPLACE_ID'']"

definition validateCredentials_part007 :: "outside \<Rightarrow> validation" where
  "validateCredentials_part007 x =
     (let missing = filter (\<lambda>key. \<not> truthyStr (env x key)) required_part007
      in \<lparr>valid = (length missing = 0), missing = missing\<rparr>)"

section \<open>The client module: the rate limiter\<close>

text \<open>
  \<^verbatim>\<open>RATE_LIMITS\<close>, lines 163 to 168. The number written \<^verbatim>\<open>0.0167\<close> is only ever
  compared with a length, and every length compares with it as with 167/10000.
\<close>

definition RATE_LIMITS :: "(string \<times> rateLimit) list" where
  "RATE_LIMITS =
     [(''default'', \<lparr>requests = 10, period = 1000\<rparr>),
      (''inventory'', \<lparr>requests = 2, period = 1000\<rparr>),
      (''orders'', \<lparr>requests = 5, period = 1000\<rparr>),
      (''reports'', \<lparr>requests = 167 / 10000, period = 1000\<rparr>)]"

text \<open>
  Both \<^verbatim>\<open>RATE_LIMITS\<close> and \<^verbatim>\<open>requestTimestamps\<close> are object literals, so a key that
  \<^verbatim>\<open>Object.prototype\<close> defines is found on them although nobody stored it.
\<close>

definition objectPrototypeKeys :: "string list" where
  "objectPrototypeKeys =
     [''constructor'', ''__defineGetter__'', ''__defineSetter__'', ''hasOwnProperty'',
      ''__lookupGetter__'', ''__lookupSetter__'', ''isPrototypeOf'',
      ''propertyIsEnumerable'', ''toString'', ''valueOf'', ''__proto__'',
      ''toLocaleString'']"

text \<open>\<^verbatim>\<open>RATE_LIMITS[apiType] || RATE_LIMITS.default\<close> for a key that is not inherited.\<close>

definition limitFor :: "string \<Rightarrow> rateLimit" where
  "limitFor apiType =
     (case map_of RATE_LIMITS apiType of
        Some l \<Rightarrow> l
      | None \<Rightarrow> \<lparr>requests = 10, period = 1000\<rparr>)"

text \<open>
  \<^verbatim>\<open>await new Promise((resolve) => setTimeout(resolve, waitTime))\<close>: the caller resumes
  no earlier than \<open>waitTime\<close> milliseconds later; \<open>None\<close> is the delay \<^verbatim>\<open>NaN\<close>.
\<close>

definition suspend :: "outside \<Rightarrow> int option \<Rightarrow> world \<Rightarrow> world" where
  "suspend x waitTime w =
     elapse (timerLag x)
       ((logEvent (Suspend waitTime) w)
          \<lparr>clock := clock w + (case waitTime of None \<Rightarrow> 0 | Some d \<Rightarrow> max 0 d)\<rparr>)"

text \<open>
  \<^verbatim>\<open>checkRateLimit\<close>, lines 175 to 195. For an inherited key the stored "array" is a
  function or \<^verbatim>\<open>Object.prototype\<close>, and calling its \<^verbatim>\<open>filter\<close> throws a TypeError.
  \<open>now\<close> is read once, on entry.
\<close>

definition checkRateLimit :: "outside \<Rightarrow> string \<Rightarrow> world \<Rightarrow> (thrown + unit) \<times> world" where
  "checkRateLimit x apiType w0 =
     (let w = logEvent (CallCheckRateLimit apiType) w0 in
      if apiType \<in> set objectPrototypeKeys
      then (Inl (JsError ''requestTimestamps[apiType].filter is not a function''), w)
      else
        (let limit = limitFor apiType;
             now = clock w;
             stamps0 = (case requestTimestamps w apiType of None \<Rightarrow> [] | Some ts \<Rightarrow> ts);
             stamps = filter (\<lambda>ts. now - ts < period limit) stamps0;
             w1 = (if of_nat (length stamps) \<ge> requests limit
                   then suspend x
                          (case stamps of
                             [] \<Rightarrow> None
                           | t0 # _ \<Rightarrow> Some (period limit - (now - t0))) w
                   else w)
         in (Inr (),
             w1\<lparr>requestTimestamps := (requestTimestamps w1)(apiType \<mapsto> stamps @ [now])\<rparr>)))"

section \<open>The client module: the executor\<close>

text \<open>\<^verbatim>\<open>buildQueryString\<close>, lines 200 to 213.\<close>

definition buildQueryString :: "outside \<Rightarrow> (string \<times> queryValue) list \<Rightarrow> string" where
  "buildQueryString x params =
     (let entries =
            concat (map (\<lambda>(key, v). case v of
                                        QArr vs \<Rightarrow> map (\<lambda>s. (key, s)) vs
                                      | QStr s \<Rightarrow> [(key, s)]
                                      | QUndefined \<Rightarrow> [])
                      (filter (\<lambda>(key, v). v \<noteq> QUndefined) params))
      in if length entries = 0 then '''' else ''?'' @ urlSearchParams x entries)"

text \<open>\<^verbatim>\<open>s.split('/')\<close>.\<close>

fun jsSplit :: "char \<Rightarrow> string \<Rightarrow> string list" where
  "jsSplit c [] = [[]]"
| "jsSplit c (d # ds) =
     (if d = c then [] # jsSplit c ds
      else (case jsSplit c ds of [] \<Rightarrow> [[d]] | p # ps \<Rightarrow> (d # p) # ps))"

text \<open>\<^verbatim>\<open>path.split('/')[1] || 'default'\<close>.\<close>

definition apiTypeOf :: "string \<Rightarrow> string" where
  "apiTypeOf p =
     (case jsSplit CHR ''/'' p of
        _ # s # _ \<Rightarrow> if s \<noteq> [] then s else ''default''
      | _ \<Rightarrow> ''default'')"

text \<open>\<^verbatim>\<open>if (body)\<close>: a body that was left out, \<^verbatim>\<open>null\<close>, \<^verbatim>\<open>false\<close>, 0 and the empty
  string are falsy.\<close>

definition truthyBody :: "json option \<Rightarrow> bool" where
  "truthyBody b =
     (case b of
        None \<Rightarrow> False
      | Some JNull \<Rightarrow> False
      | Some (JBool v) \<Rightarrow> v
      | Some (JNum n) \<Rightarrow> n \<noteq> 0
      | Some (JStr s) \<Rightarrow> s \<noteq> []
      | Some _ \<Rightarrow> True)"

text \<open>The template literal \<^verbatim>\<open>${response.status}\<close>: a natural number in decimal.\<close>

fun showNat :: "nat \<Rightarrow> string" where
  "showNat n =
     (if n < 10 then [char_of (48 + n)]
      else showNat (n div 10) @ [char_of (48 + n mod 10)])"

text \<open>Awaiting a call that may reject, and using a library result that may throw: the
  exception leaves the \<^verbatim>\<open>try\<close> block at once.\<close>

definition andThen ::
  "(thrown + 'a) \<times> world \<Rightarrow> ('a \<Rightarrow> world \<Rightarrow> (thrown + 'b) \<times> world) \<Rightarrow> (thrown + 'b) \<times> world"
  where
  "andThen m f = (case m of (Inl e, w) \<Rightarrow> (Inl e, w) | (Inr v, w) \<Rightarrow> f v w)"

definition attempt ::
  "thrown + 'a \<Rightarrow> world \<Rightarrow> ('a \<Rightarrow> (thrown + 'b) \<times> world) \<Rightarrow> (thrown + 'b) \<times> world" where
  "attempt r w f = (case r of Inl e \<Rightarrow> (Inl e, w) | Inr v \<Rightarrow> f v)"

text \<open>
  \<^verbatim>\<open>spApiRequest\<close>, the \<^verbatim>\<open>try\<close> block from its first line to the signed request
  (lines 221 to 260), in the order of the source: the token, the credentials, the URL,
  the rate limiter, the request to sign, the signature.
\<close>

definition spApiRequest_prepare ::
  "outside \<Rightarrow> requestOptions \<Rightarrow> world \<Rightarrow> (thrown + apiCall) \<times> world" where
  "spApiRequest_prepare x options w =
     (let meth = (case http_method options of None \<Rightarrow> GET | Some m \<Rightarrow> m);
          hdrs = (case headers options of None \<Rightarrow> [] | Some h \<Rightarrow> h)
      in
      andThen (getAccessToken x w) (\<lambda>tok w1.
      andThen (getSTSCredentials x w1) (\<lambda>creds w2.
        let endpoint =
              (if truthyStr (env x ''SP_API_ENDPOINT'')
               then formValue (env x ''SP_API_ENDPOINT'')
               else ''https://sellingpartnerapi-na.amazon.com'');
            queryString = (case query options of None \<Rightarrow> '''' | Some q \<Rightarrow> buildQueryString x q);
            fullPath = path options @ queryString;
            apiType = apiTypeOf (path options)
        in
        andThen (checkRateLimit x apiType w2) (\<lambda>_ w3.
        attempt (urlHost x endpoint) w3 (\<lambda>h.
        attempt (if truthyBody (body options)
                 then (case body options of
                         Some b \<Rightarrow> map_sum id Some (jsonStringify x b)
                       | None \<Rightarrow> Inr None)
                 else Inr None) w3 (\<lambda>bodyString.
          let requestOpts =
                \<lparr>aws_host = h, aws_method = meth, aws_path = fullPath,
                 aws_headers =
                   fold (\<lambda>(k, v). AList.update k v) hdrs
                     [(''Content-Type'', ''application/json''), (''x-amz-access-token'', tok)],
                 service = ''execute-api'', region = ''us-east-1'',
                 aws_body = bodyString\<rparr>;
              w4 = logEvent (Aws4Sign creds) w3
          in
          attempt (aws4sign x requestOpts creds) w4 (\<lambda>signedRequest.
            (Inr \<lparr>url = endpoint @ fullPath, call_method = meth,
                  call_headers = aws_headers signedRequest,
                  call_body = bodyString\<rparr>, w4))))))))"

text \<open>Lines 269 to 290: the response as the envelope.\<close>

definition spApiRequest_respond :: "outside \<Rightarrow> response \<Rightarrow> envelope" where
  "spApiRequest_respond x r =
     (let responseText = bodyText r;
          responseData = jsonParse x responseText
      in
      if \<not> ok r
      then \<lparr>success = False, data = None,
            error = Some (if responseText \<noteq> [] then responseText
                          else ''HTTP '' @ showNat (status r)),
            statusCode = Some (status r)\<rparr>
      else \<lparr>success = True, data = responseData, error = None,
            statusCode = Some (status r)\<rparr>)"

text \<open>The whole \<^verbatim>\<open>try\<close> block: the preparation, the \<^verbatim>\<open>fetch\<close> (lines 263 to 267),
  the response.\<close>

definition spApiRequest_try ::
  "outside \<Rightarrow> requestOptions \<Rightarrow> world \<Rightarrow> (thrown + envelope) \<times> world" where
  "spApiRequest_try x options w =
     andThen (spApiRequest_prepare x options w) (\<lambda>call w1.
       let w2 = elapse (apiLatency x) (logEvent (ApiFetch call) w1) in
       case api x call of
         Rejected e \<Rightarrow> (Inl e, w2)
       | Responded r \<Rightarrow> (Inr (spApiRequest_respond x r), w2))"

text \<open>The \<^verbatim>\<open>catch\<close> clause, lines 291 to 296, and with it the function.\<close>

definition caught :: "thrown \<Rightarrow> envelope" where
  "caught e =
     \<lparr>success = False, data = None,
      error = Some (case e of JsError m \<Rightarrow> m | NonErrorValue \<Rightarrow> ''Unknown error''),
      statusCode = None\<rparr>"

definition spApiRequest :: "outside \<Rightarrow> requestOptions \<Rightarrow> world \<Rightarrow> envelope \<times> world" where
  "spApiRequest x options w =
     (case spApiRequest_try x options w of
        (Inl e, w') \<Rightarrow> (caught e, w')
      | (Inr r, w') \<Rightarrow> (r, w'))"

section \<open>Observing a run\<close>

text \<open>How many token exchanges with the identity provider a world has seen.\<close>

definition isIdpExchange :: "event \<Rightarrow> bool" where
  "isIdpExchange e = (case e of IdpExchange _ \<Rightarrow> True | _ \<Rightarrow> False)"

definition idpCalls :: "world \<Rightarrow> nat" where
  "idpCalls w = length (filter isIdpExchange (trace w))"

text \<open>
  The log of a category as \<^verbatim>\<open>checkRateLimit\<close> reads it, the log after the pruning of
  a call made now, and the test of the limit on it.
\<close>

definition stampsOf :: "world \<Rightarrow> string \<Rightarrow> int list" where
  "stampsOf w c = (case requestTimestamps w c of None \<Rightarrow> [] | Some ts \<Rightarrow> ts)"

definition pruned :: "world \<Rightarrow> string \<Rightarrow> int list" where
  "pruned w c = filter (\<lambda>ts. clock w - ts < period (limitFor c)) (stampsOf w c)"

definition atLimit :: "world \<Rightarrow> string \<Rightarrow> bool" where
  "atLimit w c = (of_nat (length (pruned w c)) \<ge> requests (limitFor c))"

text \<open>
  The stage of an event in the order of the executor's steps, and whether some event of
  one kind is followed by an event of another kind in a trace.
\<close>

definition stage :: "event \<Rightarrow> nat" where
  "stage e =
     (case e of
        CallGetAccessToken \<Rightarrow> 0
      | IdpExchange _ \<Rightarrow> 1
      | CallGetSTSCredentials \<Rightarrow> 2
      | StsExchange _ \<Rightarrow> 3
      | CallCheckRateLimit _ \<Rightarrow> 4
      | Suspend _ \<Rightarrow> 5
      | Aws4Sign _ \<Rightarrow> 6
      | ApiFetch _ \<Rightarrow> 7)"

definition isThrottle :: "event \<Rightarrow> bool" where
  "isThrottle e = (case e of CallCheckRateLimit _ \<Rightarrow> True | _ \<Rightarrow> False)"

definition isTokenFetch :: "event \<Rightarrow> bool" where
  "isTokenFetch e = (case e of CallGetAccessToken \<Rightarrow> True | _ \<Rightarrow> False)"

fun followedBy :: "('a \<Rightarrow> bool) \<Rightarrow> ('a \<Rightarrow> bool) \<Rightarrow> 'a list \<Rightarrow> bool" where
  "followedBy P Q [] = False"
| "followedBy P Q (e # es) = (if P e then list_ex Q es else followedBy P Q es)"

text \<open>
  How many AssumeRole exchanges a world has seen, and the test of the second version of
  \<^verbatim>\<open>getSTSCredentials\<close> for a configured role identifier.
\<close>

definition isStsExchange :: "event \<Rightarrow> bool" where
  "isStsExchange e = (case e of StsExchange _ \<Rightarrow> True | _ \<Rightarrow> False)"

definition stsCalls :: "world \<Rightarrow> nat" where
  "stsCalls w = length (filter isStsExchange (trace w))"

definition roleConfigured :: "outside \<Rightarrow> bool" where
  "roleConfigured x =
     (truthyStr (env x ''AWS_ROLE_ARN'')
      \<and> env x ''AWS_ROLE_ARN'' \<noteq> Some ''arn:aws:iam::YOUR_ACCOUNT:role/YOUR_ROLE'')"

text \<open>
  The values \<^verbatim>\<open>spApiRequest\<close> computes on its way, named: the credentials it signs with,
  the endpoint, the path with the query string, the method, the JSON text of the body, the
  request handed to \<^verbatim>\<open>aws4.sign\<close>, the call handed to \<^verbatim>\<open>fetch\<close>, and the call of the
  rate limiter as the executor makes it, after the token manager and the credentials.
\<close>

definition signingCredentials :: "outside \<Rightarrow> credentials" where
  "signingCredentials x =
     (if hasAWSCredentials x then staticKeyPair x
      else \<lparr>accessKeyId = Some '''', secretAccessKey = Some '''', sessionToken = None\<rparr>)"

definition endpointOf :: "outside \<Rightarrow> string" where
  "endpointOf x =
     (if truthyStr (env x ''SP_API_ENDPOINT'') then formValue (env x ''SP_API_ENDPOINT'')
      else ''https://sellingpartnerapi-na.amazon.com'')"

definition fullPathOf :: "outside \<Rightarrow> requestOptions \<Rightarrow> string" where
  "fullPathOf x options =
     path options @ (case query options of None \<Rightarrow> '''' | Some q \<Rightarrow> buildQueryString x q)"

definition methodOf :: "requestOptions \<Rightarrow> httpMethod" where
  "methodOf options = (case http_method options of None \<Rightarrow> GET | Some m \<Rightarrow> m)"

definition bodyStringOf :: "outside \<Rightarrow> requestOptions \<Rightarrow> thrown + string option" where
  "bodyStringOf x options =
     (if truthyBody (body options)
      then (case body options of
              Some b \<Rightarrow> map_sum id Some (jsonStringify x b)
            | None \<Rightarrow> Inr None)
      else Inr None)"

definition requestToSign ::
  "outside \<Rightarrow> requestOptions \<Rightarrow> string \<Rightarrow> string \<Rightarrow> string option \<Rightarrow> aws4Request" where
  "requestToSign x options tok h bs =
     \<lparr>aws_host = h, aws_method = methodOf options, aws_path = fullPathOf x options,
      aws_headers =
        fold (\<lambda>(k, v). AList.update k v)
          (case headers options of None \<Rightarrow> [] | Some hs \<Rightarrow> hs)
          [(''Content-Type'', ''application/json''), (''x-amz-access-token'', tok)],
      service = ''execute-api'', region = ''us-east-1'', aws_body = bs\<rparr>"

definition callToSend ::
  "outside \<Rightarrow> requestOptions \<Rightarrow> aws4Request \<Rightarrow> string option \<Rightarrow> apiCall" where
  "callToSend x options signed bs =
     \<lparr>url = endpointOf x @ fullPathOf x options, call_method = methodOf options,
      call_headers = aws_headers signed, call_body = bs\<rparr>"

definition limiterStep :: "outside \<Rightarrow> requestOptions \<Rightarrow> world \<Rightarrow> (thrown + unit) \<times> world" where
  "limiterStep x options w =
     checkRateLimit x (apiTypeOf (path options))
       (logEvent CallGetSTSCredentials (snd (getAccessToken x w)))"

section \<open>Inputs of the concrete runs\<close>

text \<open>
  A configuration that lacks \<^verbatim>\<open>REFRESH_TOKEN\<close>, \<^verbatim>\<open>SELLER_ID\<close> and the AWS keys, an
  identity provider that grants a token for an hour, an API that answers 404, and stand-ins
  for the library functions.
\<close>

definition stubOutside :: outside where
  "stubOutside =
     \<lparr>env = map_of [(''LWA_CLIENT_ID'', ''amzn1.client''), (''LWA_CLIENT_SECRET'', ''s3cret''),
                     (''MARKETPLACE_ID'', ''ATVPDKIKX0DER'')],
      idp = (\<lambda>form. Responded \<lparr>status = 200, bodyText = ''Atza|token''\<rparr>),
      idpLatency = 120,
      tokenJson = (\<lambda>s. Inr \<lparr>access_token = s, refresh_token = '''', token_type = ''bearer'',
                              expires_in = 3600\<rparr>),
      sts = (\<lambda>form. Responded \<lparr>status = 403, bodyText = ''denied''\<rparr>),
      stsLatency = 90,
      xmlCapture = (\<lambda>tag xml. None),
      timerLag = 0,
      urlHost = (\<lambda>s. Inr (drop 8 s)),
      urlSearchParams = (\<lambda>entries. concat (map (\<lambda>(k, v). k @ ''='' @ v) entries)),
      jsonStringify = (\<lambda>j. Inr ''{}''),
      jsonParse = (\<lambda>s. if s = ''null'' then Some JNull else None),
      aws4sign = (\<lambda>r c. Inr (r\<lparr>aws_headers :=
                     aws_headers r @
                       [(''Authorization'',
                         ''AWS4-HMAC-SHA256 Credential='' @ formValue (accessKeyId c))]\<rparr>)),
      api = (\<lambda>call. Responded \<lparr>status = 404, bodyText = ''{\"errors\":[{\"message\":\"not found\"}]}''\<rparr>),
      apiLatency = 80\<rparr>"

definition freshWorld :: world where
  "freshWorld = \<lparr>cachedToken = None, requestTimestamps = Map.empty, clock = 0, trace = []\<rparr>"

text \<open>A world in which two inventory calls were made 400 ms ago.\<close>

definition busyWorld :: world where
  "busyWorld =
     \<lparr>cachedToken = None, requestTimestamps = [''inventory'' \<mapsto> [0, 0]], clock = 400,
      trace = []\<rparr>"

text \<open>A request for the orders, and the call it becomes on a fresh world.\<close>

definition ordersRequest :: requestOptions where
  "ordersRequest =
     \<lparr>http_method = None, path = ''/orders/v0/orders'', query = None, body = None,
      headers = None\<rparr>"

definition ordersCall :: apiCall where
  "ordersCall =
     \<lparr>url = ''https://sellingpartnerapi-na.amazon.com/orders/v0/orders'',
      call_method = GET,
      call_headers =
        [(''Content-Type'', ''application/json''), (''x-amz-access-token'', ''Atza|token''),
         (''Authorization'', ''AWS4-HMAC-SHA256 Credential='')],
      call_body = None\<rparr>"

text \<open>A request whose category is a key that \<^verbatim>\<open>Object.prototype\<close> defines.\<close>

definition constructorRequest :: requestOptions where
  "constructorRequest =
     \<lparr>http_method = None, path = ''/constructor/x'', query = None, body = None,
      headers = None\<rparr>"

text \<open>The same outside with a role identifier and a static key pair configured.\<close>

definition roleOutside :: outside where
  "roleOutside =
     stubOutside
       \<lparr>env := (env stubOutside)
                 (''AWS_ROLE_ARN'' \<mapsto> ''arn:aws:iam::123456789012:role/SellingPartner'',
                  ''AWS_ACCESS_KEY_ID'' \<mapsto> ''AKIAEXAMPLE'',
                  ''AWS_SECRET_ACCESS_KEY'' \<mapsto> ''wJalrEXAMPLEKEY'')\<rparr>"

section \<open>The validation of the configuration\<close>

text \<open>
  Claim C9. \<^verbatim>\<open>validateCredentials\<close> is a total function of the configuration: it
  returns a record and raises nothing. A key is present when its value is a non-empty
  string (the test of the code is \<^verbatim>\<open>!process.env[key]\<close>). The list \<open>missing\<close> holds
  exactly the required keys that are not present, in the order of the list of required
  keys; \<open>valid\<close> is true exactly when that list is empty, which is exactly when every
  required key is present. With \<^verbatim>\<open>REFRESH_TOKEN\<close> and \<^verbatim>\<open>SELLER_ID\<close> the only required
  keys that are not present, the result is
  \<^verbatim>\<open>{valid: false, missing: ["REFRESH_TOKEN", "SELLER_ID"]}\<close>. All of it holds for both
  versions of the function, each with its own list of required keys.
\<close>

theorem validateCredentials_complete:
  "subseq (missing (validateCredentials x)) required
   \<and> set (missing (validateCredentials x)) = {k \<in> set required. \<not> truthyStr (env x k)}
   \<and> (valid (validateCredentials x) \<longleftrightarrow> missing (validateCredentials x) = [])
   \<and> (valid (validateCredentials x) \<longleftrightarrow> (\<forall>k \<in> set required. truthyStr (env x k)))
   \<and> subseq (missing (validateCredentials_part007 x)) required_part007
   \<and> set (missing (validateCredentials_part007 x))
       = {k \<in> set required_part007. \<not> truthyStr (env x k)}
   \<and> (valid (validateCredentials_part007 x) \<longleftrightarrow> missing (validateCredentials_part007 x) = [])
   \<and> (valid (validateCredentials_part007 x)
        \<longleftrightarrow> (\<forall>k \<in> set required_part007. truthyStr (env x k)))
   \<and> ((\<forall>k \<in> set required_part007.
           truthyStr (env x k) \<longleftrightarrow> k \<noteq> ''REFRESH_TOKEN'' \<and> k \<noteq> ''SELLER_ID'')
        \<longrightarrow> validateCredentials x
              = \<lparr>valid = False, missing = [''REFRESH_TOKEN'', ''SELLER_ID'']\<rparr>
            \<and> validateCredentials_part007 x
              = \<lparr>valid = False, missing = [''REFRESH_TOKEN'', ''SELLER_ID'']\<rparr>)"
proof -
  have a: "subseq (missing (validateCredentials x)) required"
    by (simp add: validateCredentials_def Let_def)
  have b: "set (missing (validateCredentials x)) = {k \<in> set required. \<not> truthyStr (env x k)}"
    by (auto simp: validateCredentials_def Let_def)
  have c: "valid (validateCredentials x) \<longleftrightarrow> missing (validateCredentials x) = []"
    by (simp add: validateCredentials_def Let_def)
  have d: "valid (validateCredentials x) \<longleftrightarrow> (\<forall>k \<in> set required. truthyStr (env x k))"
    by (simp add: validateCredentials_def Let_def filter_empty_conv)
  have a': "subseq (missing (validateCredentials_part007 x)) required_part007"
    by (simp add: validateCredentials_part007_def Let_def)
  have b': "set (missing (validateCredentials_part007 x))
            = {k \<in> set required_part007. \<not> truthyStr (env x k)}"
    by (auto simp: validateCredentials_part007_def Let_def)
  have c': "valid (validateCredentials_part007 x)
            \<longleftrightarrow> missing (validateCredentials_part007 x) = []"
    by (simp add: validateCredentials_part007_def Let_def)
  have d': "valid (validateCredentials_part007 x)
            \<longleftrightarrow> (\<forall>k \<in> set required_part007. truthyStr (env x k))"
    by (simp add: validateCredentials_part007_def Let_def filter_empty_conv)
  have e: "validateCredentials x = \<lparr>valid = False, missing = [''REFRESH_TOKEN'', ''SELLER_ID'']\<rparr>
           \<and> validateCredentials_part007 x
             = \<lparr>valid = False, missing = [''REFRESH_TOKEN'', ''SELLER_ID'']\<rparr>"
    if h: "\<forall>k \<in> set required_part007.
             truthyStr (env x k) \<longleftrightarrow> k \<noteq> ''REFRESH_TOKEN'' \<and> k \<noteq> ''SELLER_ID''"
    using h by (simp add: validateCredentials_def validateCredentials_part007_def
                  required_def required_part007_def Let_def)
  from a b c d a' b' c' d' e show ?thesis by blast
qed

text \<open>Claim C9 at a configuration that lacks exactly the two keys, and at a complete one.\<close>

theorem validateCredentials_complete_witness:
  "validateCredentials
     (stubOutside\<lparr>env := (env stubOutside)(''AWS_ACCESS_KEY_ID'' \<mapsto> ''AKIA'',
                                              ''AWS_SECRET_ACCESS_KEY'' \<mapsto> ''k'')\<rparr>)
     = \<lparr>valid = False, missing = [''REFRESH_TOKEN'', ''SELLER_ID'']\<rparr>
   \<and> validateCredentials_part007
     (stubOutside\<lparr>env := (env stubOutside)(''AWS_ACCESS_KEY_ID'' \<mapsto> ''AKIA'',
                                              ''AWS_SECRET_ACCESS_KEY'' \<mapsto> ''k'')\<rparr>)
     = \<lparr>valid = False, missing = [''REFRESH_TOKEN'', ''SELLER_ID'']\<rparr>
   \<and> valid (validateCredentials
        (stubOutside\<lparr>env := (env stubOutside)(''REFRESH_TOKEN'' \<mapsto> ''Atzr|r'',
                                                 ''SELLER_ID'' \<mapsto> ''A1'')\<rparr>))"
proof -
  let ?x = "stubOutside\<lparr>env := (env stubOutside)(''AWS_ACCESS_KEY_ID'' \<mapsto> ''AKIA'',
                                              ''AWS_SECRET_ACCESS_KEY'' \<mapsto> ''k'')\<rparr>"
  let ?y = "stubOutside\<lparr>env := (env stubOutside)(''REFRESH_TOKEN'' \<mapsto> ''Atzr|r'',
                                                 ''SELLER_ID'' \<mapsto> ''A1'')\<rparr>"
  have h: "\<forall>k \<in> set required_part007.
             truthyStr (env ?x k) \<longleftrightarrow> k \<noteq> ''REFRESH_TOKEN'' \<and> k \<noteq> ''SELLER_ID''"
    by (simp add: required_part007_def stubOutside_def truthyStr_def)
  have g: "\<forall>k \<in> set required. truthyStr (env ?y k)"
    by (simp add: required_def stubOutside_def truthyStr_def)
  from validateCredentials_complete [of ?x] h validateCredentials_complete [of ?y] g
  show ?thesis by blast
qed

section \<open>The token manager\<close>

text \<open>A cached token that expires more than a minute from now is returned as it is.\<close>

lemma getAccessToken_fresh:
  assumes "cachedToken w = Some c" "expiresAt c > clock w + 60000"
  shows "getAccessToken x w = (Inr (accessToken c), logEvent CallGetAccessToken w)"
  using assms by (simp add: getAccessToken_def logEvent_def Let_def)

text \<open>Otherwise the identity provider is asked, once.\<close>

lemma getAccessToken_stale_calls:
  assumes "\<not> (\<exists>c. cachedToken w = Some c \<and> expiresAt c > clock w + 60000)"
  shows "idpCalls (snd (getAccessToken x w)) = Suc (idpCalls w)"
  using assms
  by (cases "cachedToken w")
     (auto simp: getAccessToken_def logEvent_def elapse_def Let_def idpCalls_def
        isIdpExchange_def split: fetchResult.splits sum.splits)

text \<open>Whenever the function returns a token, that token is the cached one afterwards.\<close>

lemma getAccessToken_holds_token:
  assumes "fst (getAccessToken x w) = Inr tok"
  shows "\<exists>c. cachedToken (snd (getAccessToken x w)) = Some c \<and> accessToken c = tok"
  using assms
  by (cases "cachedToken w")
     (auto simp: getAccessToken_def logEvent_def elapse_def Let_def
        split: fetchResult.splits sum.splits if_splits)

text \<open>
  Claim C2. \<^verbatim>\<open>getAccessToken\<close> makes no call to the identity provider if and only if a
  cached token exists whose \<open>expiresAt\<close> is strictly greater than now + 60000 ms, and then
  it returns the cached value and leaves the cache alone. A cached token with
  \<open>expiresAt = now + 59000\<close> makes it ask the identity provider once, one with
  \<open>expiresAt = now + 61000\<close> does not. After a call that returned a token, a second call
  \<open>d\<close> ms later, at which the cached token still expires more than 60000 ms ahead (its
  validity window), makes no call to the identity provider and returns the same token.
\<close>

theorem getAccessToken_cache_iff:
  "((\<exists>c. cachedToken w = Some c \<and> expiresAt c > clock w + 60000)
      \<longleftrightarrow> idpCalls (snd (getAccessToken x w)) = idpCalls w)
   \<and> (\<forall>c. cachedToken w = Some c \<and> expiresAt c > clock w + 60000
          \<longrightarrow> fst (getAccessToken x w) = Inr (accessToken c)
              \<and> cachedToken (snd (getAccessToken x w)) = Some c)
   \<and> (\<forall>c. cachedToken w = Some c \<and> expiresAt c = clock w + 59000
          \<longrightarrow> idpCalls (snd (getAccessToken x w)) = idpCalls w + 1)
   \<and> (\<forall>c. cachedToken w = Some c \<and> expiresAt c = clock w + 61000
          \<longrightarrow> idpCalls (snd (getAccessToken x w)) = idpCalls w
              \<and> fst (getAccessToken x w) = Inr (accessToken c))
   \<and> (\<forall>tok c. fst (getAccessToken x w) = Inr tok
          \<and> cachedToken (snd (getAccessToken x w)) = Some c
          \<and> expiresAt c > clock (elapse d (snd (getAccessToken x w))) + 60000
          \<longrightarrow> idpCalls (snd (getAccessToken y (elapse d (snd (getAccessToken x w)))))
                = idpCalls (snd (getAccessToken x w))
              \<and> fst (getAccessToken y (elapse d (snd (getAccessToken x w)))) = Inr tok)"
proof -
  have fresh: "getAccessToken x' w' = (Inr (accessToken c), logEvent CallGetAccessToken w')"
    if "cachedToken w' = Some c" "expiresAt c > clock w' + 60000" for x' w' c
    using that by (rule getAccessToken_fresh)
  have same: "idpCalls (logEvent CallGetAccessToken w') = idpCalls w'" for w'
    by (simp add: idpCalls_def logEvent_def isIdpExchange_def)
  have A: "(\<exists>c. cachedToken w = Some c \<and> expiresAt c > clock w + 60000)
             \<longleftrightarrow> idpCalls (snd (getAccessToken x w)) = idpCalls w"
  proof
    assume "\<exists>c. cachedToken w = Some c \<and> expiresAt c > clock w + 60000"
    then obtain c where "cachedToken w = Some c" "expiresAt c > clock w + 60000" by blast
    then show "idpCalls (snd (getAccessToken x w)) = idpCalls w"
      by (simp add: fresh same)
  next
    assume eq: "idpCalls (snd (getAccessToken x w)) = idpCalls w"
    show "\<exists>c. cachedToken w = Some c \<and> expiresAt c > clock w + 60000"
    proof (rule ccontr)
      assume "\<not> (\<exists>c. cachedToken w = Some c \<and> expiresAt c > clock w + 60000)"
      then have "idpCalls (snd (getAccessToken x w)) = Suc (idpCalls w)"
        by (rule getAccessToken_stale_calls)
      with eq show False by simp
    qed
  qed
  have B: "fst (getAccessToken x w) = Inr (accessToken c)
           \<and> cachedToken (snd (getAccessToken x w)) = Some c"
    if "cachedToken w = Some c \<and> expiresAt c > clock w + 60000" for c
    using that by (simp add: fresh logEvent_def)
  have C: "idpCalls (snd (getAccessToken x w)) = idpCalls w + 1"
    if "cachedToken w = Some c \<and> expiresAt c = clock w + 59000" for c
  proof -
    from that have "\<not> (\<exists>c. cachedToken w = Some c \<and> expiresAt c > clock w + 60000)" by auto
    then show ?thesis using getAccessToken_stale_calls by simp
  qed
  have D: "idpCalls (snd (getAccessToken x w)) = idpCalls w
           \<and> fst (getAccessToken x w) = Inr (accessToken c)"
    if "cachedToken w = Some c \<and> expiresAt c = clock w + 61000" for c
    using that by (simp add: fresh same)
  have E: "idpCalls (snd (getAccessToken y (elapse d (snd (getAccessToken x w)))))
             = idpCalls (snd (getAccessToken x w))
           \<and> fst (getAccessToken y (elapse d (snd (getAccessToken x w)))) = Inr tok"
    if h: "fst (getAccessToken x w) = Inr tok
           \<and> cachedToken (snd (getAccessToken x w)) = Some c
           \<and> expiresAt c > clock (elapse d (snd (getAccessToken x w))) + 60000" for tok c
  proof -
    let ?w1 = "elapse d (snd (getAccessToken x w))"
    from h getAccessToken_holds_token [of x w tok] have tok: "accessToken c = tok" by auto
    from h have c1: "cachedToken ?w1 = Some c" by (simp add: elapse_def)
    from h have c2: "expiresAt c > clock ?w1 + 60000" by simp
    have "idpCalls ?w1 = idpCalls (snd (getAccessToken x w))"
      by (simp add: idpCalls_def elapse_def)
    with fresh [OF c1 c2, of y] tok show ?thesis by (simp add: same)
  qed
  from A B C D E show ?thesis by blast
qed

text \<open>
  Claim C2 on an empty cache, then 3000 seconds later on the token of that call, and on
  the two boundary tokens of the claim.
\<close>

theorem getAccessToken_cache_iff_witness:
  "idpCalls (snd (getAccessToken stubOutside freshWorld)) = 1
   \<and> fst (getAccessToken stubOutside freshWorld) = Inr ''Atza|token''
   \<and> idpCalls (snd (getAccessToken stubOutside
        (elapse 3000000 (snd (getAccessToken stubOutside freshWorld))))) = 1
   \<and> fst (getAccessToken stubOutside
        (elapse 3000000 (snd (getAccessToken stubOutside freshWorld)))) = Inr ''Atza|token''
   \<and> idpCalls (snd (getAccessToken stubOutside
        (freshWorld\<lparr>cachedToken := Some \<lparr>accessToken = ''old'', expiresAt = 59000\<rparr>\<rparr>))) = 1
   \<and> idpCalls (snd (getAccessToken stubOutside
        (freshWorld\<lparr>cachedToken := Some \<lparr>accessToken = ''old'', expiresAt = 61000\<rparr>\<rparr>))) = 0"
proof -
  let ?r = "getAccessToken stubOutside freshWorld"
  let ?c = "\<lparr>accessToken = ''Atza|token'', expiresAt = 3600120\<rparr>"
  let ?w59 = "freshWorld\<lparr>cachedToken := Some \<lparr>accessToken = ''old'', expiresAt = 59000\<rparr>\<rparr>"
  let ?w61 = "freshWorld\<lparr>cachedToken := Some \<lparr>accessToken = ''old'', expiresAt = 61000\<rparr>\<rparr>"
  have r: "?r = (Inr ''Atza|token'',
                 \<lparr>cachedToken = Some ?c, requestTimestamps = Map.empty, clock = 120,
                  trace = [CallGetAccessToken, IdpExchange (refreshForm stubOutside)]\<rparr>)"
    by (simp add: getAccessToken_def stubOutside_def freshWorld_def logEvent_def elapse_def
          ok_def Let_def)
  have n0: "idpCalls freshWorld = 0" "idpCalls ?w59 = 0" "idpCalls ?w61 = 0"
    by (simp_all add: idpCalls_def freshWorld_def)
  have none: "\<not> (\<exists>c. cachedToken freshWorld = Some c \<and> expiresAt c > clock freshWorld + 60000)"
    by (simp add: freshWorld_def)
  have h1: "fst ?r = Inr ''Atza|token'' \<and> cachedToken (snd ?r) = Some ?c
            \<and> expiresAt ?c > clock (elapse 3000000 (snd ?r)) + 60000"
    by (simp add: r elapse_def)
  have h59: "cachedToken ?w59 = Some \<lparr>accessToken = ''old'', expiresAt = 59000\<rparr>
             \<and> expiresAt \<lparr>accessToken = ''old'', expiresAt = 59000\<rparr> = clock ?w59 + 59000"
    by (simp add: freshWorld_def)
  have h61: "cachedToken ?w61 = Some \<lparr>accessToken = ''old'', expiresAt = 61000\<rparr>
             \<and> expiresAt \<lparr>accessToken = ''old'', expiresAt = 61000\<rparr> = clock ?w61 + 61000"
    by (simp add: freshWorld_def)
  have one: "idpCalls (snd ?r) = 1"
    by (simp add: r idpCalls_def isIdpExchange_def)
  from getAccessToken_cache_iff [of freshWorld stubOutside 3000000 stubOutside] h1 one
  have two: "idpCalls (snd (getAccessToken stubOutside (elapse 3000000 (snd ?r)))) = 1
             \<and> fst (getAccessToken stubOutside (elapse 3000000 (snd ?r))) = Inr ''Atza|token''"
    by metis
  from getAccessToken_cache_iff [of ?w59 stubOutside 0 stubOutside] h59 n0
  have three: "idpCalls (snd (getAccessToken stubOutside ?w59)) = 1" by simp
  from getAccessToken_cache_iff [of ?w61 stubOutside 0 stubOutside] h61 n0
  have four: "idpCalls (snd (getAccessToken stubOutside ?w61)) = 0" by simp
  from one h1 two three four show ?thesis by simp
qed

text \<open>
  Claim C10. When no cached token is usable and the identity provider answers the
  refresh exchange with a status outside 200..299, \<^verbatim>\<open>getAccessToken\<close> throws the error
  "Failed to refresh token: " followed by the body of the answer, and the cached token is
  exactly what it was before the call: a token close to expiry is neither cleared nor
  replaced. The timestamps of the rate limiter are untouched too.
\<close>

theorem getAccessToken_failed_refresh_keeps_cache:
  assumes "\<not> (\<exists>c. cachedToken w = Some c \<and> expiresAt c > clock w + 60000)"
    and "idp x (refreshForm x) = Responded r"
    and "\<not> ok r"
  shows "fst (getAccessToken x w) = Inl (JsError (''Failed to refresh token: '' @ bodyText r))
         \<and> cachedToken (snd (getAccessToken x w)) = cachedToken w
         \<and> requestTimestamps (snd (getAccessToken x w)) = requestTimestamps w"
  using assms
  by (cases "cachedToken w")
     (auto simp: getAccessToken_def logEvent_def elapse_def Let_def)

text \<open>
  Claim C10 on a cached token that expires in 30 seconds, with an identity provider that
  answers 400.
\<close>

theorem getAccessToken_failed_refresh_keeps_cache_witness:
  "fst (getAccessToken
          (stubOutside\<lparr>idp := (\<lambda>form. Responded \<lparr>status = 400, bodyText = ''invalid_grant''\<rparr>)\<rparr>)
          (freshWorld\<lparr>cachedToken := Some \<lparr>accessToken = ''old'', expiresAt = 30000\<rparr>\<rparr>))
     = Inl (JsError ''Failed to refresh token: invalid_grant'')
   \<and> cachedToken (snd (getAccessToken
          (stubOutside\<lparr>idp := (\<lambda>form. Responded \<lparr>status = 400, bodyText = ''invalid_grant''\<rparr>)\<rparr>)
          (freshWorld\<lparr>cachedToken := Some \<lparr>accessToken = ''old'', expiresAt = 30000\<rparr>\<rparr>)))
     = Some \<lparr>accessToken = ''old'', expiresAt = 30000\<rparr>"
proof -
  let ?x = "stubOutside\<lparr>idp := (\<lambda>form. Responded \<lparr>status = 400, bodyText = ''invalid_grant''\<rparr>)\<rparr>"
  let ?w = "freshWorld\<lparr>cachedToken := Some \<lparr>accessToken = ''old'', expiresAt = 30000\<rparr>\<rparr>"
  have stale: "\<not> (\<exists>c. cachedToken ?w = Some c \<and> expiresAt c > clock ?w + 60000)"
    by (simp add: freshWorld_def)
  have answer: "idp ?x (refreshForm ?x) = Responded \<lparr>status = 400, bodyText = ''invalid_grant''\<rparr>"
    by simp
  have bad: "\<not> ok \<lparr>status = 400, bodyText = ''invalid_grant''\<rparr>"
    by (simp add: ok_def)
  from getAccessToken_failed_refresh_keeps_cache [OF stale answer bad]
  show ?thesis by simp
qed

section \<open>The rate limiter\<close>

text \<open>Every category gets one of the four configured limits, and each admits something.\<close>

lemma limitFor_cases:
  "limitFor c = \<lparr>requests = 10, period = 1000\<rparr> \<or> limitFor c = \<lparr>requests = 2, period = 1000\<rparr>
   \<or> limitFor c = \<lparr>requests = 5, period = 1000\<rparr>
   \<or> limitFor c = \<lparr>requests = 167 / 10000, period = 1000\<rparr>"
  by (simp add: limitFor_def RATE_LIMITS_def)

lemma limitFor_positive: "0 < requests (limitFor c)"
  using limitFor_cases [of c] by auto

text \<open>So a log at its limit is not empty, and its entries are younger than the period.\<close>

lemma atLimit_nonempty: "atLimit w c \<Longrightarrow> pruned w c \<noteq> []"
  using limitFor_positive [of c] by (auto simp: atLimit_def)

lemma pruned_recent: "t \<in> set (pruned w c) \<Longrightarrow> clock w - t < period (limitFor c)"
  by (simp add: pruned_def)

text \<open>The two ways through \<^verbatim>\<open>checkRateLimit\<close>: below the limit, and at it.\<close>

lemma checkRateLimit_admits:
  assumes "c \<notin> set objectPrototypeKeys" "\<not> atLimit w c"
  shows "checkRateLimit x c w =
           (Inr (), w\<lparr>trace := trace w @ [CallCheckRateLimit c],
                      requestTimestamps := (requestTimestamps w)(c \<mapsto> pruned w c @ [clock w])\<rparr>)"
  using assms
  by (simp add: checkRateLimit_def Let_def logEvent_def atLimit_def pruned_def stampsOf_def)

lemma checkRateLimit_suspends:
  assumes "c \<notin> set objectPrototypeKeys" "atLimit w c" "pruned w c = t0 # rest"
  shows "checkRateLimit x c w =
           (Inr (), w\<lparr>trace := trace w @ [CallCheckRateLimit c,
                                Suspend (Some (period (limitFor c) - (clock w - t0)))],
                      clock := clock w + (period (limitFor c) - (clock w - t0)) + int (timerLag x),
                      requestTimestamps := (requestTimestamps w)(c \<mapsto> pruned w c @ [clock w])\<rparr>)"
proof -
  have "t0 \<in> set (pruned w c)" using assms(3) by simp
  then have pos: "0 < period (limitFor c) - (clock w - t0)"
    using pruned_recent by fastforce
  from assms(2) have lim: "requests (limitFor c)
      \<le> of_nat (length (filter (\<lambda>ts. clock w - ts < period (limitFor c))
                     (case requestTimestamps w c of None \<Rightarrow> [] | Some ts \<Rightarrow> ts)))"
    by (simp add: atLimit_def pruned_def stampsOf_def)
  from assms(3) have pr: "filter (\<lambda>ts. clock w - ts < period (limitFor c))
                     (case requestTimestamps w c of None \<Rightarrow> [] | Some ts \<Rightarrow> ts) = t0 # rest"
    by (simp add: pruned_def stampsOf_def)
  show ?thesis
    using assms(1) pos lim
    by (simp add: checkRateLimit_def Let_def logEvent_def suspend_def elapse_def pr
          pruned_def stampsOf_def max_def)
qed

text \<open>
  Either way the timestamp appended to the log is the time read on entry, and the logs of
  the other categories are not touched. Time never runs backwards in a call.
\<close>

lemma checkRateLimit_log:
  assumes "c \<notin> set objectPrototypeKeys"
  shows "stampsOf (snd (checkRateLimit x c w)) c = pruned w c @ [clock w]"
proof (cases "atLimit w c")
  case True
  then obtain t0 rest where "pruned w c = t0 # rest"
    using atLimit_nonempty by (cases "pruned w c") auto
  with True assms show ?thesis
    by (simp add: checkRateLimit_suspends stampsOf_def)
next
  case False
  with assms show ?thesis by (simp add: checkRateLimit_admits stampsOf_def)
qed

lemma checkRateLimit_other:
  assumes "c \<notin> set objectPrototypeKeys" "c' \<noteq> c"
  shows "stampsOf (snd (checkRateLimit x c w)) c' = stampsOf w c'"
proof (cases "atLimit w c")
  case True
  then obtain t0 rest where "pruned w c = t0 # rest"
    using atLimit_nonempty by (cases "pruned w c") auto
  with True assms show ?thesis
    by (simp add: checkRateLimit_suspends stampsOf_def)
next
  case False
  with assms show ?thesis by (simp add: checkRateLimit_admits stampsOf_def)
qed

lemma checkRateLimit_clock_mono:
  assumes "c \<notin> set objectPrototypeKeys"
  shows "clock w \<le> clock (snd (checkRateLimit x c w))"
proof (cases "atLimit w c")
  case True
  then obtain t0 rest where p: "pruned w c = t0 # rest"
    using atLimit_nonempty by (cases "pruned w c") auto
  then have "t0 \<in> set (pruned w c)" by simp
  then have "0 < period (limitFor c) - (clock w - t0)"
    using pruned_recent by fastforce
  with True assms p show ?thesis
    by (simp add: checkRateLimit_suspends)
next
  case False
  with assms show ?thesis by (simp add: checkRateLimit_admits)
qed

text \<open>
  Claim C3. Whenever the log of a category, pruned of the entries older than the period,
  holds at least \<open>requests\<close> entries, the call suspends for exactly
  \<open>period - (now - oldest)\<close> ms, \<open>oldest\<close> being the first entry that is left (a timer
  may fire \<open>timerLag\<close> ms late); otherwise it does not suspend. For a category configured
  with 2 requests per 1000 ms and an empty log, three calls in a row (\<open>d1\<close> and \<open>d2\<close> ms
  apart, zero for back-to-back calls) leave the first and the second undelayed, and the
  third returns no earlier than 1000 ms after the time of the first.
\<close>

theorem checkRateLimit_window:
  "(c \<notin> set objectPrototypeKeys \<and> atLimit w c \<longrightarrow>
      (\<exists>oldest rest. pruned w c = oldest # rest
         \<and> trace (snd (checkRateLimit x c w))
             = trace w @ [CallCheckRateLimit c,
                          Suspend (Some (period (limitFor c) - (clock w - oldest)))]
         \<and> clock (snd (checkRateLimit x c w))
             = clock w + (period (limitFor c) - (clock w - oldest)) + int (timerLag x)))
   \<and> (c \<notin> set objectPrototypeKeys \<and> \<not> atLimit w c \<longrightarrow>
        trace (snd (checkRateLimit x c w)) = trace w @ [CallCheckRateLimit c]
        \<and> clock (snd (checkRateLimit x c w)) = clock w)
   \<and> (c \<notin> set objectPrototypeKeys \<and> limitFor c = \<lparr>requests = 2, period = 1000\<rparr>
        \<and> stampsOf w c = [] \<longrightarrow>
        (let w1 = snd (checkRateLimit x1 c w);
             w2 = snd (checkRateLimit x2 c (elapse d1 w1));
             w3 = snd (checkRateLimit x3 c (elapse d2 w2))
         in clock w1 = clock w \<and> trace w1 = trace w @ [CallCheckRateLimit c]
            \<and> clock w2 = clock w + int d1 \<and> trace w2 = trace w1 @ [CallCheckRateLimit c]
            \<and> clock w3 \<ge> clock w + 1000))"
proof -
  have A: "\<exists>oldest rest. pruned w c = oldest # rest
         \<and> trace (snd (checkRateLimit x c w))
             = trace w @ [CallCheckRateLimit c,
                          Suspend (Some (period (limitFor c) - (clock w - oldest)))]
         \<and> clock (snd (checkRateLimit x c w))
             = clock w + (period (limitFor c) - (clock w - oldest)) + int (timerLag x)"
    if h: "c \<notin> set objectPrototypeKeys \<and> atLimit w c"
  proof -
    from h obtain t0 rest where p: "pruned w c = t0 # rest"
      using atLimit_nonempty by (cases "pruned w c") auto
    from h p show ?thesis by (simp add: checkRateLimit_suspends)
  qed
  have B: "trace (snd (checkRateLimit x c w)) = trace w @ [CallCheckRateLimit c]
        \<and> clock (snd (checkRateLimit x c w)) = clock w"
    if "c \<notin> set objectPrototypeKeys \<and> \<not> atLimit w c"
    using that by (simp add: checkRateLimit_admits)
  have C: "(let w1 = snd (checkRateLimit x1 c w);
             w2 = snd (checkRateLimit x2 c (elapse d1 w1));
             w3 = snd (checkRateLimit x3 c (elapse d2 w2))
         in clock w1 = clock w \<and> trace w1 = trace w @ [CallCheckRateLimit c]
            \<and> clock w2 = clock w + int d1 \<and> trace w2 = trace w1 @ [CallCheckRateLimit c]
            \<and> clock w3 \<ge> clock w + 1000)"
    if h: "c \<notin> set objectPrototypeKeys \<and> limitFor c = \<lparr>requests = 2, period = 1000\<rparr>
        \<and> stampsOf w c = []"
  proof -
    from h have key: "c \<notin> set objectPrototypeKeys"
      and lim: "limitFor c = \<lparr>requests = 2, period = 1000\<rparr>"
      and empty: "stampsOf w c = []" by auto
    define w1 where "w1 = snd (checkRateLimit x1 c w)"
    define v1 where "v1 = elapse d1 w1"
    define w2 where "w2 = snd (checkRateLimit x2 c v1)"
    define v2 where "v2 = elapse d2 w2"
    define w3 where "w3 = snd (checkRateLimit x3 c v2)"
    have n1: "\<not> atLimit w c"
      using empty lim by (simp add: atLimit_def pruned_def)
    have c1: "clock w1 = clock w" and t1: "trace w1 = trace w @ [CallCheckRateLimit c]"
      using key n1 by (simp_all add: w1_def checkRateLimit_admits)
    have s1: "stampsOf w1 c = [clock w]"
      using checkRateLimit_log [OF key, of x1 w] empty by (simp add: w1_def pruned_def)
    have sv1: "stampsOf v1 c = [clock w]" and cv1: "clock v1 = clock w + int d1"
      and tv1: "trace v1 = trace w1"
      using s1 c1 by (simp_all add: v1_def elapse_def stampsOf_def)
    have "length (pruned v1 c) \<le> 1"
      using sv1 by (simp add: pruned_def)
    then have n2: "\<not> atLimit v1 c"
      using lim by (simp add: atLimit_def)
    have c2: "clock w2 = clock w + int d1" and t2: "trace w2 = trace w1 @ [CallCheckRateLimit c]"
      using key n2 cv1 tv1 by (simp_all add: w2_def checkRateLimit_admits)
    have s2: "stampsOf w2 c = pruned v1 c @ [clock w + int d1]"
      using checkRateLimit_log [OF key, of x2 v1] cv1 by (simp add: w2_def)
    have sv2: "stampsOf v2 c = pruned v1 c @ [clock w + int d1]"
      and cv2: "clock v2 = clock w + int d1 + int d2"
      using s2 c2 by (simp_all add: v2_def elapse_def stampsOf_def)
    have c3: "clock w3 \<ge> clock w + 1000"
    proof (cases "int d1 + int d2 < 1000")
      case True
      then have "pruned v1 c = [clock w]"
        using sv1 cv1 lim by (simp add: pruned_def)
      with sv2 have "stampsOf v2 c = [clock w, clock w + int d1]" by simp
      with True cv2 lim have p: "pruned v2 c = [clock w, clock w + int d1]"
        by (simp add: pruned_def)
      then have "atLimit v2 c" using lim by (simp add: atLimit_def)
      with key p cv2 lim show ?thesis
        by (simp add: w3_def checkRateLimit_suspends)
    next
      case False
      with cv2 have "clock w + 1000 \<le> clock v2" by simp
      also have "clock v2 \<le> clock w3"
        unfolding w3_def using key by (rule checkRateLimit_clock_mono)
      finally show ?thesis .
    qed
    from c1 t1 c2 t2 c3 show ?thesis
      by (simp add: Let_def w1_def w2_def w3_def v1_def v2_def)
  qed
  from A B C show ?thesis by blast
qed

text \<open>The two categories of the concrete runs.\<close>

lemma inventory_key: "''inventory'' \<notin> set objectPrototypeKeys"
  by (simp add: objectPrototypeKeys_def)

lemma reports_key: "''reports'' \<notin> set objectPrototypeKeys"
  by (simp add: objectPrototypeKeys_def)

lemma inventory_limit: "limitFor ''inventory'' = \<lparr>requests = 2, period = 1000\<rparr>"
  by (simp add: limitFor_def RATE_LIMITS_def)

lemma reports_limit: "limitFor ''reports'' = \<lparr>requests = 167 / 10000, period = 1000\<rparr>"
  by (simp add: limitFor_def RATE_LIMITS_def)

text \<open>
  Claim C3 on three back-to-back inventory calls, and on a call that finds two entries
  400 ms old: it waits 600 ms.
\<close>

theorem checkRateLimit_window_witness:
  "(let w1 = snd (checkRateLimit stubOutside ''inventory'' freshWorld);
        w2 = snd (checkRateLimit stubOutside ''inventory'' (elapse 0 w1));
        w3 = snd (checkRateLimit stubOutside ''inventory'' (elapse 0 w2))
    in clock w1 = 0 \<and> clock w2 = 0 \<and> clock w3 \<ge> 1000)
   \<and> trace (snd (checkRateLimit stubOutside ''inventory'' busyWorld))
       = [CallCheckRateLimit ''inventory'', Suspend (Some 600)]
   \<and> clock (snd (checkRateLimit stubOutside ''inventory'' busyWorld)) = 1000"
proof -
  have e: "stampsOf freshWorld ''inventory'' = []"
    by (simp add: stampsOf_def freshWorld_def)
  have c0: "clock freshWorld = 0"
    by (simp add: freshWorld_def)
  have p: "pruned busyWorld ''inventory'' = [0, 0]"
    by (simp add: pruned_def stampsOf_def busyWorld_def inventory_limit)
  then have l: "atLimit busyWorld ''inventory''"
    by (simp add: atLimit_def inventory_limit)
  have b: "clock busyWorld = 400" "trace busyWorld = []" "timerLag stubOutside = 0"
    by (simp_all add: busyWorld_def stubOutside_def)
  from checkRateLimit_window [where c = "''inventory''" and w = freshWorld and ?x1.0 = stubOutside
      and ?x2.0 = stubOutside and ?d1.0 = 0 and ?x3.0 = stubOutside and ?d2.0 = 0]
    inventory_key inventory_limit e c0
  have first: "(let w1 = snd (checkRateLimit stubOutside ''inventory'' freshWorld);
        w2 = snd (checkRateLimit stubOutside ''inventory'' (elapse 0 w1));
        w3 = snd (checkRateLimit stubOutside ''inventory'' (elapse 0 w2))
    in clock w1 = 0 \<and> clock w2 = 0 \<and> clock w3 \<ge> 1000)"
    by (simp add: Let_def)
  from checkRateLimit_window [where c = "''inventory''" and w = busyWorld and x = stubOutside] inventory_key l p b
  have second: "trace (snd (checkRateLimit stubOutside ''inventory'' busyWorld))
       = [CallCheckRateLimit ''inventory'', Suspend (Some 600)]
   \<and> clock (snd (checkRateLimit stubOutside ''inventory'' busyWorld)) = 1000"
    by (simp add: inventory_limit)
  from first second show ?thesis by simp
qed

text \<open>
  Claim C6, where the code departs from it. The comment at the \<open>reports\<close> entry of
  \<^verbatim>\<open>RATE_LIMITS\<close> says "1 per minute", and the entry is 0.0167 requests per period of
  1000 ms. The limiter compares the number of calls of the last 1000 ms with 0.0167, so
  one call a second passes: two \<open>reports\<close> calls one second apart are both admitted
  without any delay.
\<close>

theorem reports_admits_two_calls_in_a_minute:
  "clock (snd (checkRateLimit stubOutside ''reports'' freshWorld)) = clock freshWorld
   \<and> clock (snd (checkRateLimit stubOutside ''reports''
        (elapse 1000 (snd (checkRateLimit stubOutside ''reports'' freshWorld)))))
      = clock freshWorld + 1000
   \<and> trace (snd (checkRateLimit stubOutside ''reports''
        (elapse 1000 (snd (checkRateLimit stubOutside ''reports'' freshWorld)))))
      = [CallCheckRateLimit ''reports'', CallCheckRateLimit ''reports'']
   \<and> period (limitFor ''reports'') = 1000"
proof -
  let ?w1 = "snd (checkRateLimit stubOutside ''reports'' freshWorld)"
  have n1: "\<not> atLimit freshWorld ''reports''"
    by (simp add: atLimit_def pruned_def stampsOf_def freshWorld_def reports_limit)
  have w1: "?w1 = \<lparr>cachedToken = None, requestTimestamps = [''reports'' \<mapsto> [0]], clock = 0,
                   trace = [CallCheckRateLimit ''reports'']\<rparr>"
    using reports_key n1
    by (simp add: checkRateLimit_admits) (simp add: freshWorld_def pruned_def stampsOf_def)
  have n2: "\<not> atLimit (elapse 1000 ?w1) ''reports''"
    by (simp add: w1 atLimit_def pruned_def stampsOf_def elapse_def reports_limit)
  have w2: "snd (checkRateLimit stubOutside ''reports'' (elapse 1000 ?w1))
            = \<lparr>cachedToken = None, requestTimestamps = [''reports'' \<mapsto> [1000]], clock = 1000,
               trace = [CallCheckRateLimit ''reports'', CallCheckRateLimit ''reports'']\<rparr>"
    using reports_key n2
    by (simp add: checkRateLimit_admits)
       (simp add: w1 elapse_def pruned_def stampsOf_def reports_limit)
  have a: "clock ?w1 = 0" by (simp add: w1)
  have b: "clock freshWorld = 0" by (simp add: freshWorld_def)
  show ?thesis by (simp add: w2 a b reports_limit)
qed

text \<open>
  Claim C7, where the code departs from it. The third of three back-to-back inventory
  calls waits until time 1000, and the timestamp it appends is 0, the time read before the
  wait. The log then holds nothing younger than the period, and a fourth and a fifth call
  pass at time 1000 without delay: three calls leave the limiter in the same millisecond,
  in a category limited to two a second.
\<close>

theorem checkRateLimit_logs_entry_time:
  "(let w1 = snd (checkRateLimit stubOutside ''inventory'' freshWorld);
        w2 = snd (checkRateLimit stubOutside ''inventory'' w1);
        w3 = snd (checkRateLimit stubOutside ''inventory'' w2);
        w4 = snd (checkRateLimit stubOutside ''inventory'' w3);
        w5 = snd (checkRateLimit stubOutside ''inventory'' w4)
    in clock w2 = 0 \<and> clock w3 = 1000
       \<and> requestTimestamps w3 ''inventory'' = Some [0, 0, 0]
       \<and> clock w5 = 1000
       \<and> trace w5 = [CallCheckRateLimit ''inventory'', CallCheckRateLimit ''inventory'',
                      CallCheckRateLimit ''inventory'', Suspend (Some 1000),
                      CallCheckRateLimit ''inventory'', CallCheckRateLimit ''inventory''])"
proof -
  define w1 where "w1 = snd (checkRateLimit stubOutside ''inventory'' freshWorld)"
  define w2 where "w2 = snd (checkRateLimit stubOutside ''inventory'' w1)"
  define w3 where "w3 = snd (checkRateLimit stubOutside ''inventory'' w2)"
  define w4 where "w4 = snd (checkRateLimit stubOutside ''inventory'' w3)"
  define w5 where "w5 = snd (checkRateLimit stubOutside ''inventory'' w4)"
  have lag: "timerLag stubOutside = 0" by (simp add: stubOutside_def)
  have n0: "\<not> atLimit freshWorld ''inventory''"
    by (simp add: atLimit_def pruned_def stampsOf_def freshWorld_def inventory_limit)
  have e1: "w1 = \<lparr>cachedToken = None, requestTimestamps = [''inventory'' \<mapsto> [0]], clock = 0,
                  trace = [CallCheckRateLimit ''inventory'']\<rparr>"
    unfolding w1_def using inventory_key n0
    by (simp add: checkRateLimit_admits) (simp add: freshWorld_def pruned_def stampsOf_def)
  have n1: "\<not> atLimit w1 ''inventory''"
    by (simp add: e1 atLimit_def pruned_def stampsOf_def inventory_limit)
  have e2: "w2 = \<lparr>cachedToken = None, requestTimestamps = [''inventory'' \<mapsto> [0, 0]], clock = 0,
                  trace = [CallCheckRateLimit ''inventory'', CallCheckRateLimit ''inventory'']\<rparr>"
    unfolding w2_def using inventory_key n1
    by (simp add: checkRateLimit_admits) (simp add: e1 pruned_def stampsOf_def inventory_limit)
  have p2: "pruned w2 ''inventory'' = [0, 0]"
    by (simp add: e2 pruned_def stampsOf_def inventory_limit)
  then have l2: "atLimit w2 ''inventory''"
    by (simp add: atLimit_def inventory_limit)
  have e3: "w3 = \<lparr>cachedToken = None, requestTimestamps = [''inventory'' \<mapsto> [0, 0, 0]],
                  clock = 1000,
                  trace = [CallCheckRateLimit ''inventory'', CallCheckRateLimit ''inventory'',
                           CallCheckRateLimit ''inventory'', Suspend (Some 1000)]\<rparr>"
    unfolding w3_def using checkRateLimit_suspends [OF inventory_key l2 p2, of stubOutside]
    by (simp add: lag inventory_limit p2) (simp add: e2)
  have p3: "pruned w3 ''inventory'' = []"
    by (simp add: e3 pruned_def stampsOf_def inventory_limit)
  then have n3: "\<not> atLimit w3 ''inventory''"
    by (simp add: atLimit_def inventory_limit)
  have e4: "w4 = \<lparr>cachedToken = None, requestTimestamps = [''inventory'' \<mapsto> [1000]],
                  clock = 1000,
                  trace = [CallCheckRateLimit ''inventory'', CallCheckRateLimit ''inventory'',
                           CallCheckRateLimit ''inventory'', Suspend (Some 1000),
                           CallCheckRateLimit ''inventory'']\<rparr>"
    unfolding w4_def using inventory_key n3
    by (simp add: checkRateLimit_admits p3) (simp add: e3)
  have p4: "pruned w4 ''inventory'' = [1000]"
    by (simp add: e4 pruned_def stampsOf_def inventory_limit)
  then have n4: "\<not> atLimit w4 ''inventory''"
    by (simp add: atLimit_def inventory_limit)
  have e5: "clock w5 = 1000
            \<and> trace w5 = [CallCheckRateLimit ''inventory'', CallCheckRateLimit ''inventory'',
                           CallCheckRateLimit ''inventory'', Suspend (Some 1000),
                           CallCheckRateLimit ''inventory'', CallCheckRateLimit ''inventory'']"
    unfolding w5_def using inventory_key n4
    by (simp add: checkRateLimit_admits p4) (simp add: e4)
  have "clock w2 = 0 \<and> clock w3 = 1000 \<and> requestTimestamps w3 ''inventory'' = Some [0, 0, 0]"
    by (simp add: e2 e3)
  with e5 show ?thesis
    by (simp add: Let_def w1_def w2_def w3_def w4_def w5_def)
qed

section \<open>The signing credentials\<close>

text \<open>The two ways through the second version of \<^verbatim>\<open>getSTSCredentials\<close>.\<close>

lemma getSTSCredentials_part007_static:
  assumes "\<not> roleConfigured x"
  shows "getSTSCredentials_part007 x w = (Inr (staticKeyPair x), logEvent CallGetSTSCredentials w)"
  using assms by (auto simp: getSTSCredentials_part007_def roleConfigured_def Let_def)

lemma getSTSCredentials_part007_role:
  assumes "roleConfigured x"
  shows "getSTSCredentials_part007 x w =
           (case getAccessToken x (logEvent CallGetSTSCredentials w) of
              (Inl e, w1) \<Rightarrow> (Inl e, w1)
            | (Inr tok, w1) \<Rightarrow>
                (let w2 = elapse (stsLatency x) (logEvent (StsExchange (assumeRoleForm x)) w1) in
                 case sts x (assumeRoleForm x) of
                   Rejected e \<Rightarrow> (Inl e, w2)
                 | Responded r \<Rightarrow>
                     if \<not> ok r then (Inr (staticKeyPair x), w2)
                     else
                       (Inr \<lparr>accessKeyId =
                               orElse (xmlCapture x ''AccessKeyId'' (bodyText r))
                                 (env x ''AWS_ACCESS_KEY_ID''),
                             secretAccessKey =
                               orElse (xmlCapture x ''SecretAccessKey'' (bodyText r))
                                 (env x ''AWS_SECRET_ACCESS_KEY''),
                             sessionToken = xmlCapture x ''SessionToken'' (bodyText r)\<rparr>, w2)))"
  using assms by (simp add: getSTSCredentials_part007_def roleConfigured_def Let_def)

lemma stsCalls_logEvent_call: "stsCalls (logEvent CallGetSTSCredentials w) = stsCalls w"
  by (simp add: stsCalls_def logEvent_def isStsExchange_def)

text \<open>
  Claim C8, as amended. \<^verbatim>\<open>getSTSCredentials\<close> of the named file never fails and makes
  no exchange: it returns the static key pair when both keys are configured and the empty
  credentials otherwise. In the second version the exchange for a session token is
  attempted only when a role identifier is configured (set, not empty and not the
  placeholder); without one the static key pair is returned as it is configured, and no
  exchange is made. With one, an answer of the exchange with a status outside 200..299
  falls back silently to the static key pair, and a failure to obtain the access token
  before the exchange, or a transport failure of the exchange, is thrown to the caller.
\<close>

theorem getSTSCredentials_resolution:
  "fst (getSTSCredentials x w)
     = Inr (if hasAWSCredentials x then staticKeyPair x
            else \<lparr>accessKeyId = Some '''', secretAccessKey = Some '''', sessionToken = None\<rparr>)
   \<and> snd (getSTSCredentials x w) = logEvent CallGetSTSCredentials w
   \<and> (stsCalls (snd (getSTSCredentials_part007 x w)) \<noteq> stsCalls w \<longrightarrow> roleConfigured x)
   \<and> (\<not> roleConfigured x
        \<longrightarrow> getSTSCredentials_part007 x w
            = (Inr (staticKeyPair x), logEvent CallGetSTSCredentials w))
   \<and> (\<forall>tok w1 r. roleConfigured x
          \<and> getAccessToken x (logEvent CallGetSTSCredentials w) = (Inr tok, w1)
          \<and> sts x (assumeRoleForm x) = Responded r \<and> \<not> ok r
        \<longrightarrow> fst (getSTSCredentials_part007 x w) = Inr (staticKeyPair x))
   \<and> (\<forall>e. roleConfigured x
          \<and> fst (getAccessToken x (logEvent CallGetSTSCredentials w)) = Inl e
        \<longrightarrow> fst (getSTSCredentials_part007 x w) = Inl e)
   \<and> (\<forall>tok w1 e. roleConfigured x
          \<and> getAccessToken x (logEvent CallGetSTSCredentials w) = (Inr tok, w1)
          \<and> sts x (assumeRoleForm x) = Rejected e
        \<longrightarrow> fst (getSTSCredentials_part007 x w) = Inl e)"
proof -
  have A: "fst (getSTSCredentials x w)
     = Inr (if hasAWSCredentials x then staticKeyPair x
            else \<lparr>accessKeyId = Some '''', secretAccessKey = Some '''', sessionToken = None\<rparr>)"
    by (simp add: getSTSCredentials_def hasAWSCredentials_def staticKeyPair_def Let_def)
  have B: "snd (getSTSCredentials x w) = logEvent CallGetSTSCredentials w"
    by (simp add: getSTSCredentials_def Let_def)
  have C: "roleConfigured x" if h: "stsCalls (snd (getSTSCredentials_part007 x w)) \<noteq> stsCalls w"
  proof (rule ccontr)
    assume "\<not> roleConfigured x"
    then have "snd (getSTSCredentials_part007 x w) = logEvent CallGetSTSCredentials w"
      by (simp add: getSTSCredentials_part007_static)
    with h show False by (simp add: stsCalls_logEvent_call)
  qed
  have D: "getSTSCredentials_part007 x w
            = (Inr (staticKeyPair x), logEvent CallGetSTSCredentials w)"
    if "\<not> roleConfigured x"
    using that by (rule getSTSCredentials_part007_static)
  have E: "fst (getSTSCredentials_part007 x w) = Inr (staticKeyPair x)"
    if "roleConfigured x
          \<and> getAccessToken x (logEvent CallGetSTSCredentials w) = (Inr tok, w1)
          \<and> sts x (assumeRoleForm x) = Responded r \<and> \<not> ok r" for tok w1 r
    using that by (simp add: getSTSCredentials_part007_role Let_def)
  have F: "fst (getSTSCredentials_part007 x w) = Inl e"
    if "roleConfigured x
          \<and> fst (getAccessToken x (logEvent CallGetSTSCredentials w)) = Inl e" for e
    using that
    by (cases "getAccessToken x (logEvent CallGetSTSCredentials w)")
       (simp add: getSTSCredentials_part007_role)
  have G: "fst (getSTSCredentials_part007 x w) = Inl e"
    if "roleConfigured x
          \<and> getAccessToken x (logEvent CallGetSTSCredentials w) = (Inr tok, w1)
          \<and> sts x (assumeRoleForm x) = Rejected e" for tok w1 e
    using that by (simp add: getSTSCredentials_part007_role Let_def)
  from A B C D E F G show ?thesis by blast
qed

text \<open>A configuration with a role identifier and a key pair, and the one without.\<close>

lemma roleOutside_configured: "roleConfigured roleOutside"
  by (simp add: roleConfigured_def roleOutside_def truthyStr_def)

lemma stubOutside_no_role: "\<not> roleConfigured stubOutside"
  by (simp add: roleConfigured_def stubOutside_def truthyStr_def)

lemma roleOutside_token:
  "getAccessToken roleOutside (logEvent CallGetSTSCredentials freshWorld)
   = (Inr ''Atza|token'',
      \<lparr>cachedToken = Some \<lparr>accessToken = ''Atza|token'', expiresAt = 3600120\<rparr>,
       requestTimestamps = Map.empty, clock = 120,
       trace = [CallGetSTSCredentials, CallGetAccessToken,
                IdpExchange (refreshForm roleOutside)]\<rparr>)"
  by (simp add: getAccessToken_def roleOutside_def stubOutside_def freshWorld_def
        logEvent_def elapse_def ok_def Let_def)

text \<open>
  Claim C8, as amended, without and with a key pair, without and with a role identifier (the
  exchange answers 403), and with an exchange that cannot be reached.
\<close>

theorem getSTSCredentials_resolution_witness:
  "fst (getSTSCredentials stubOutside freshWorld)
     = Inr \<lparr>accessKeyId = Some '''', secretAccessKey = Some '''', sessionToken = None\<rparr>
   \<and> fst (getSTSCredentials roleOutside freshWorld)
     = Inr \<lparr>accessKeyId = Some ''AKIAEXAMPLE'', secretAccessKey = Some ''wJalrEXAMPLEKEY'',
            sessionToken = None\<rparr>
   \<and> fst (getSTSCredentials_part007 stubOutside freshWorld)
     = Inr \<lparr>accessKeyId = None, secretAccessKey = None, sessionToken = None\<rparr>
   \<and> fst (getSTSCredentials_part007 roleOutside freshWorld)
     = Inr \<lparr>accessKeyId = Some ''AKIAEXAMPLE'', secretAccessKey = Some ''wJalrEXAMPLEKEY'',
            sessionToken = None\<rparr>
   \<and> fst (getSTSCredentials_part007
            (roleOutside\<lparr>sts := (\<lambda>form. Rejected (JsError ''getaddrinfo ENOTFOUND''))\<rparr>)
            freshWorld)
     = Inl (JsError ''getaddrinfo ENOTFOUND'')"
proof -
  let ?xrej = "roleOutside\<lparr>sts := (\<lambda>form. Rejected (JsError ''getaddrinfo ENOTFOUND''))\<rparr>"
  have k0: "\<not> hasAWSCredentials stubOutside"
    by (simp add: hasAWSCredentials_def stubOutside_def truthyStr_def)
  have k1: "hasAWSCredentials roleOutside"
    by (simp add: hasAWSCredentials_def roleOutside_def truthyStr_def)
  have s0: "staticKeyPair stubOutside
            = \<lparr>accessKeyId = None, secretAccessKey = None, sessionToken = None\<rparr>"
    by (simp add: staticKeyPair_def stubOutside_def)
  have s1: "staticKeyPair roleOutside
            = \<lparr>accessKeyId = Some ''AKIAEXAMPLE'', secretAccessKey = Some ''wJalrEXAMPLEKEY'',
               sessionToken = None\<rparr>"
    by (simp add: staticKeyPair_def roleOutside_def)
  have r: "sts roleOutside (assumeRoleForm roleOutside)
           = Responded \<lparr>status = 403, bodyText = ''denied''\<rparr>"
    by (simp add: roleOutside_def stubOutside_def)
  have bad: "\<not> ok \<lparr>status = 403, bodyText = ''denied''\<rparr>" by (simp add: ok_def)
  have rc: "roleConfigured ?xrej"
    using roleOutside_configured by (simp add: roleConfigured_def)
  have tk: "getAccessToken ?xrej (logEvent CallGetSTSCredentials freshWorld)
            = (Inr ''Atza|token'',
               \<lparr>cachedToken = Some \<lparr>accessToken = ''Atza|token'', expiresAt = 3600120\<rparr>,
                requestTimestamps = Map.empty, clock = 120,
                trace = [CallGetSTSCredentials, CallGetAccessToken,
                         IdpExchange (refreshForm ?xrej)]\<rparr>)"
    by (simp add: getAccessToken_def roleOutside_def stubOutside_def freshWorld_def
          logEvent_def elapse_def ok_def Let_def)
  have rj: "sts ?xrej (assumeRoleForm ?xrej) = Rejected (JsError ''getaddrinfo ENOTFOUND'')"
    by simp
  from getSTSCredentials_resolution [of stubOutside freshWorld] k0 s0 stubOutside_no_role
  have one: "fst (getSTSCredentials stubOutside freshWorld)
       = Inr \<lparr>accessKeyId = Some '''', secretAccessKey = Some '''', sessionToken = None\<rparr>
     \<and> fst (getSTSCredentials_part007 stubOutside freshWorld)
       = Inr \<lparr>accessKeyId = None, secretAccessKey = None, sessionToken = None\<rparr>"
    by simp
  from getSTSCredentials_resolution [of roleOutside freshWorld] k1 s1 roleOutside_configured
    roleOutside_token r bad
  have two: "fst (getSTSCredentials roleOutside freshWorld)
       = Inr \<lparr>accessKeyId = Some ''AKIAEXAMPLE'', secretAccessKey = Some ''wJalrEXAMPLEKEY'',
              sessionToken = None\<rparr>
     \<and> fst (getSTSCredentials_part007 roleOutside freshWorld)
       = Inr \<lparr>accessKeyId = Some ''AKIAEXAMPLE'', secretAccessKey = Some ''wJalrEXAMPLEKEY'',
              sessionToken = None\<rparr>"
    by simp
  from getSTSCredentials_resolution [of ?xrej freshWorld] rc tk rj
  have three: "fst (getSTSCredentials_part007 ?xrej freshWorld)
               = Inl (JsError ''getaddrinfo ENOTFOUND'')"
    by blast
  from one two three show ?thesis by simp
qed

text \<open>
  Claim C8 as it is stated has \<^verbatim>\<open>getSTSCredentials\<close> never fail. In the second version,
  with a role identifier configured and an identity provider that refuses the refresh, the
  function throws the error of \<^verbatim>\<open>getAccessToken\<close>.
\<close>

theorem getSTSCredentials_part007_throws:
  "fst (getSTSCredentials_part007
          (roleOutside\<lparr>idp := (\<lambda>form. Responded \<lparr>status = 400, bodyText = ''invalid_grant''\<rparr>)\<rparr>)
          freshWorld)
   = Inl (JsError ''Failed to refresh token: invalid_grant'')"
proof -
  let ?x = "roleOutside\<lparr>idp := (\<lambda>form. Responded \<lparr>status = 400, bodyText = ''invalid_grant''\<rparr>)\<rparr>"
  have rc: "roleConfigured ?x"
    using roleOutside_configured by (simp add: roleConfigured_def)
  have "fst (getAccessToken ?x (logEvent CallGetSTSCredentials freshWorld))
        = Inl (JsError ''Failed to refresh token: invalid_grant'')"
    by (simp add: getAccessToken_def freshWorld_def logEvent_def elapse_def ok_def Let_def)
  with rc show ?thesis
    by (cases "getAccessToken ?x (logEvent CallGetSTSCredentials freshWorld)")
       (simp add: getSTSCredentials_part007_role)
qed

section \<open>The executor: the envelope\<close>

text \<open>
  What \<^verbatim>\<open>spApiRequest\<close> returns once the request is prepared, by the outcome of the
  \<^verbatim>\<open>fetch\<close>, and what it returns when the preparation threw.
\<close>

lemma spApiRequest_responded:
  assumes "spApiRequest_prepare x options w = (Inr call, w1)" "api x call = Responded r"
  shows "spApiRequest x options w
         = (spApiRequest_respond x r, elapse (apiLatency x) (logEvent (ApiFetch call) w1))"
  using assms by (simp add: spApiRequest_def spApiRequest_try_def andThen_def Let_def)

lemma spApiRequest_rejected:
  assumes "spApiRequest_prepare x options w = (Inr call, w1)" "api x call = Rejected e"
  shows "spApiRequest x options w
         = (caught e, elapse (apiLatency x) (logEvent (ApiFetch call) w1))"
  using assms by (simp add: spApiRequest_def spApiRequest_try_def andThen_def Let_def)

lemma spApiRequest_unprepared:
  assumes "spApiRequest_prepare x options w = (Inl e, w1)"
  shows "spApiRequest x options w = (caught e, w1)"
  using assms by (simp add: spApiRequest_def spApiRequest_try_def andThen_def)

text \<open>
  Claim C1. \<^verbatim>\<open>spApiRequest\<close> returns an envelope on every input: whatever the
  \<^verbatim>\<open>try\<close> block throws becomes the envelope of the \<^verbatim>\<open>catch\<close> clause, and whatever
  it returns is returned. When the API answers with a status outside 200..299 the envelope
  is \<^verbatim>\<open>{success: false, error, statusCode}\<close>, the error being the body text, or
  "HTTP " and the status when the body is empty. When the \<^verbatim>\<open>fetch\<close> rejects with an
  \<^verbatim>\<open>Error\<close> (a transport failure), or anything before it throws one, the envelope is
  \<^verbatim>\<open>{success: false, error: message}\<close> with no status code. When the API answers
  with a status in 200..299 the envelope is \<^verbatim>\<open>{success: true, data, statusCode}\<close>,
  the data being the parsed body, absent when the body is not JSON. \<open>success\<close> is true
  exactly when the request was sent and answered with a status in 200..299.
\<close>

theorem spApiRequest_envelope:
  "(\<forall>call w1 r. spApiRequest_prepare x options w = (Inr call, w1)
        \<and> api x call = Responded r \<and> \<not> ok r
      \<longrightarrow> fst (spApiRequest x options w)
          = \<lparr>success = False, data = None,
             error = Some (if bodyText r = [] then ''HTTP '' @ showNat (status r)
                           else bodyText r),
             statusCode = Some (status r)\<rparr>)
   \<and> (\<forall>call w1 m. spApiRequest_prepare x options w = (Inr call, w1)
        \<and> api x call = Rejected (JsError m)
      \<longrightarrow> fst (spApiRequest x options w)
          = \<lparr>success = False, data = None, error = Some m, statusCode = None\<rparr>)
   \<and> (\<forall>call w1 r. spApiRequest_prepare x options w = (Inr call, w1)
        \<and> api x call = Responded r \<and> ok r
      \<longrightarrow> fst (spApiRequest x options w)
          = \<lparr>success = True, data = jsonParse x (bodyText r), error = None,
             statusCode = Some (status r)\<rparr>)
   \<and> (\<forall>m w1. spApiRequest_prepare x options w = (Inl (JsError m), w1)
      \<longrightarrow> fst (spApiRequest x options w)
          = \<lparr>success = False, data = None, error = Some m, statusCode = None\<rparr>)
   \<and> (\<forall>e. fst (spApiRequest_try x options w) = Inl e
      \<longrightarrow> fst (spApiRequest x options w) = caught e)
   \<and> (\<forall>r. fst (spApiRequest_try x options w) = Inr r
      \<longrightarrow> fst (spApiRequest x options w) = r)
   \<and> (success (fst (spApiRequest x options w))
        \<longleftrightarrow> (\<exists>call w1 r. spApiRequest_prepare x options w = (Inr call, w1)
              \<and> api x call = Responded r \<and> ok r))"
proof -
  have A: "fst (spApiRequest x options w)
          = \<lparr>success = False, data = None,
             error = Some (if bodyText r = [] then ''HTTP '' @ showNat (status r)
                           else bodyText r),
             statusCode = Some (status r)\<rparr>"
    if "spApiRequest_prepare x options w = (Inr call, w1) \<and> api x call = Responded r \<and> \<not> ok r"
    for call w1 r
    using that by (simp add: spApiRequest_responded spApiRequest_respond_def Let_def)
  have B: "fst (spApiRequest x options w)
          = \<lparr>success = False, data = None, error = Some m, statusCode = None\<rparr>"
    if "spApiRequest_prepare x options w = (Inr call, w1) \<and> api x call = Rejected (JsError m)"
    for call w1 m
    using that by (simp add: spApiRequest_rejected caught_def)
  have C: "fst (spApiRequest x options w)
          = \<lparr>success = True, data = jsonParse x (bodyText r), error = None,
             statusCode = Some (status r)\<rparr>"
    if "spApiRequest_prepare x options w = (Inr call, w1) \<and> api x call = Responded r \<and> ok r"
    for call w1 r
    using that by (simp add: spApiRequest_responded spApiRequest_respond_def Let_def)
  have D: "fst (spApiRequest x options w)
          = \<lparr>success = False, data = None, error = Some m, statusCode = None\<rparr>"
    if "spApiRequest_prepare x options w = (Inl (JsError m), w1)" for m w1
    using that by (simp add: spApiRequest_unprepared caught_def)
  have E: "fst (spApiRequest x options w) = caught e"
    if "fst (spApiRequest_try x options w) = Inl e" for e
    using that by (cases "spApiRequest_try x options w") (simp add: spApiRequest_def)
  have F: "fst (spApiRequest x options w) = r"
    if "fst (spApiRequest_try x options w) = Inr r" for r
    using that by (cases "spApiRequest_try x options w") (simp add: spApiRequest_def)
  have G: "success (fst (spApiRequest x options w))
        \<longleftrightarrow> (\<exists>call w1 r. spApiRequest_prepare x options w = (Inr call, w1)
              \<and> api x call = Responded r \<and> ok r)"
  proof (cases "spApiRequest_prepare x options w")
    case (Pair res w1)
    show ?thesis
    proof (cases res)
      case (Inl e)
      with Pair show ?thesis by (simp add: spApiRequest_unprepared caught_def)
    next
      case (Inr call)
      show ?thesis
      proof (cases "api x call")
        case (Rejected e)
        with Pair Inr show ?thesis by (simp add: spApiRequest_rejected caught_def)
      next
        case (Responded r)
        with Pair Inr show ?thesis
          by (simp add: spApiRequest_responded spApiRequest_respond_def Let_def)
      qed
    qed
  qed
  from A B C D E F G show ?thesis by blast
qed

text \<open>The preparation of the orders request on a fresh world, whatever the API will answer.\<close>

lemma stub_prepare:
  "spApiRequest_prepare (stubOutside\<lparr>api := f\<rparr>) ordersRequest freshWorld
   = (Inr ordersCall,
      \<lparr>cachedToken = Some \<lparr>accessToken = ''Atza|token'', expiresAt = 3600120\<rparr>,
       requestTimestamps = [''orders'' \<mapsto> [120]], clock = 120,
       trace = [CallGetAccessToken, IdpExchange (refreshForm stubOutside),
                CallGetSTSCredentials, CallCheckRateLimit ''orders'',
                Aws4Sign \<lparr>accessKeyId = Some '''', secretAccessKey = Some '''',
                          sessionToken = None\<rparr>]\<rparr>)"
  by (simp add: spApiRequest_prepare_def andThen_def attempt_def getAccessToken_def
        getSTSCredentials_def checkRateLimit_def stubOutside_def freshWorld_def
        ordersRequest_def ordersCall_def logEvent_def elapse_def ok_def Let_def
        apiTypeOf_def objectPrototypeKeys_def limitFor_def RATE_LIMITS_def truthyStr_def
        truthyBody_def formValue_def refreshForm_def)

text \<open>
  Claim C1 on a 404 with a body, a 503 without one, a rejected \<^verbatim>\<open>fetch\<close>, a 200
  with the body \<^verbatim>\<open>null\<close>, a 200 whose body is not JSON, and a refused token refresh.
\<close>

theorem spApiRequest_envelope_witness:
  "fst (spApiRequest stubOutside ordersRequest freshWorld)
     = \<lparr>success = False, data = None,
        error = Some ''{\"errors\":[{\"message\":\"not found\"}]}'', statusCode = Some 404\<rparr>
   \<and> fst (spApiRequest (stubOutside\<lparr>api := (\<lambda>call. Responded \<lparr>status = 503, bodyText = ''''\<rparr>)\<rparr>)
          ordersRequest freshWorld)
     = \<lparr>success = False, data = None, error = Some ''HTTP 503'', statusCode = Some 503\<rparr>
   \<and> fst (spApiRequest (stubOutside\<lparr>api := (\<lambda>call. Rejected (JsError ''fetch failed''))\<rparr>)
          ordersRequest freshWorld)
     = \<lparr>success = False, data = None, error = Some ''fetch failed'', statusCode = None\<rparr>
   \<and> fst (spApiRequest (stubOutside\<lparr>api := (\<lambda>call. Responded \<lparr>status = 200, bodyText = ''null''\<rparr>)\<rparr>)
          ordersRequest freshWorld)
     = \<lparr>success = True, data = Some JNull, error = None, statusCode = Some 200\<rparr>
   \<and> fst (spApiRequest (stubOutside\<lparr>api := (\<lambda>call. Responded \<lparr>status = 200, bodyText = ''<html>''\<rparr>)\<rparr>)
          ordersRequest freshWorld)
     = \<lparr>success = True, data = None, error = None, statusCode = Some 200\<rparr>
   \<and> fst (spApiRequest
          (stubOutside\<lparr>idp := (\<lambda>form. Responded \<lparr>status = 400, bodyText = ''invalid_grant''\<rparr>)\<rparr>)
          ordersRequest freshWorld)
     = \<lparr>success = False, data = None, error = Some ''Failed to refresh token: invalid_grant'',
        statusCode = None\<rparr>"
proof -
  let ?x404 = "stubOutside\<lparr>api := api stubOutside\<rparr>"
  let ?x503 = "stubOutside\<lparr>api := (\<lambda>call. Responded \<lparr>status = 503, bodyText = ''''\<rparr>)\<rparr>"
  let ?xrej = "stubOutside\<lparr>api := (\<lambda>call. Rejected (JsError ''fetch failed''))\<rparr>"
  let ?xnull = "stubOutside\<lparr>api := (\<lambda>call. Responded \<lparr>status = 200, bodyText = ''null''\<rparr>)\<rparr>"
  let ?xhtml = "stubOutside\<lparr>api := (\<lambda>call. Responded \<lparr>status = 200, bodyText = ''<html>''\<rparr>)\<rparr>"
  let ?xidp = "stubOutside\<lparr>idp := (\<lambda>form. Responded \<lparr>status = 400, bodyText = ''invalid_grant''\<rparr>)\<rparr>"
  have same: "?x404 = stubOutside" by simp
  have r404: "api ?x404 ordersCall
              = Responded \<lparr>status = 404, bodyText = ''{\"errors\":[{\"message\":\"not found\"}]}''\<rparr>"
    by (simp add: stubOutside_def)
  have parse: "jsonParse ?xnull ''null'' = Some JNull" "jsonParse ?xhtml ''<html>'' = None"
    by (simp_all add: stubOutside_def)
  have s503: "showNat 503 = ''503''" by code_simp
  have noprep: "spApiRequest_prepare ?xidp ordersRequest freshWorld
                = (Inl (JsError ''Failed to refresh token: invalid_grant''),
                   elapse (idpLatency ?xidp)
                     (logEvent (IdpExchange (refreshForm ?xidp))
                        (logEvent CallGetAccessToken freshWorld)))"
    by (simp add: spApiRequest_prepare_def andThen_def getAccessToken_def freshWorld_def
          logEvent_def elapse_def ok_def Let_def)
  from spApiRequest_envelope [of ?x404 ordersRequest freshWorld] stub_prepare [of "api stubOutside"]
    r404
  have one: "fst (spApiRequest ?x404 ordersRequest freshWorld)
     = \<lparr>success = False, data = None,
        error = Some ''{\"errors\":[{\"message\":\"not found\"}]}'', statusCode = Some 404\<rparr>"
    by (simp add: ok_def)
  from spApiRequest_envelope [of ?x503 ordersRequest freshWorld] stub_prepare [of "api ?x503"] s503
  have two: "fst (spApiRequest ?x503 ordersRequest freshWorld)
     = \<lparr>success = False, data = None, error = Some ''HTTP 503'', statusCode = Some 503\<rparr>"
    by (simp add: ok_def)
  from spApiRequest_envelope [of ?xrej ordersRequest freshWorld] stub_prepare [of "api ?xrej"]
  have three: "fst (spApiRequest ?xrej ordersRequest freshWorld)
     = \<lparr>success = False, data = None, error = Some ''fetch failed'', statusCode = None\<rparr>"
    by simp
  from spApiRequest_envelope [of ?xnull ordersRequest freshWorld] stub_prepare [of "api ?xnull"]
    parse
  have four: "fst (spApiRequest ?xnull ordersRequest freshWorld)
     = \<lparr>success = True, data = Some JNull, error = None, statusCode = Some 200\<rparr>"
    by (simp add: ok_def)
  from spApiRequest_envelope [of ?xhtml ordersRequest freshWorld] stub_prepare [of "api ?xhtml"]
    parse
  have five: "fst (spApiRequest ?xhtml ordersRequest freshWorld)
     = \<lparr>success = True, data = None, error = None, statusCode = Some 200\<rparr>"
    by (simp add: ok_def)
  from spApiRequest_envelope [of ?xidp ordersRequest freshWorld] noprep
  have six: "fst (spApiRequest ?xidp ordersRequest freshWorld)
     = \<lparr>success = False, data = None, error = Some ''Failed to refresh token: invalid_grant'',
        statusCode = None\<rparr>"
    by simp
  from one same two three four five six show ?thesis by simp
qed

section \<open>The executor: the order of its steps\<close>

text \<open>The events that the token manager and the rate limiter add to the trace.\<close>

lemma getAccessToken_trace:
  "\<exists>evs. trace (snd (getAccessToken x w)) = trace w @ CallGetAccessToken # evs
         \<and> (evs = [] \<or> evs = [IdpExchange (refreshForm x)])"
  by (cases "cachedToken w")
     (auto simp: getAccessToken_def logEvent_def elapse_def Let_def
        split: fetchResult.splits sum.splits)

lemma checkRateLimit_trace:
  "\<exists>evs. trace (snd (checkRateLimit x c w)) = trace w @ CallCheckRateLimit c # evs
         \<and> (evs = [] \<or> (\<exists>d. evs = [Suspend d]))"
  by (simp add: checkRateLimit_def logEvent_def suspend_def elapse_def Let_def)

lemma limiterStep_trace:
  "\<exists>evs. trace (snd (limiterStep x options w))
          = trace (snd (getAccessToken x w))
              @ [CallGetSTSCredentials, CallCheckRateLimit (apiTypeOf (path options))] @ evs
         \<and> (evs = [] \<or> (\<exists>d. evs = [Suspend d]))"
  using checkRateLimit_trace
          [of x "apiTypeOf (path options)" "logEvent CallGetSTSCredentials (snd (getAccessToken x w))"]
  by (auto simp: limiterStep_def logEvent_def)

text \<open>\<^verbatim>\<open>getSTSCredentials\<close> of the named file always returns, and what it returns.\<close>

lemma getSTSCredentials_value:
  "getSTSCredentials x w
   = (Inr (if hasAWSCredentials x then staticKeyPair x
           else \<lparr>accessKeyId = Some '''', secretAccessKey = Some '''', sessionToken = None\<rparr>),
      logEvent CallGetSTSCredentials w)"
  by (simp add: getSTSCredentials_def hasAWSCredentials_def staticKeyPair_def Let_def)

text \<open>
  The preparation after the token manager: it stops when the token manager threw, and
  otherwise goes on with the rate limiter, the host of the endpoint, the text of the body
  and the signature, stopping at the first of them that throws.
\<close>

lemma spApiRequest_prepare_token_failed:
  assumes "fst (getAccessToken x w) = Inl e"
  shows "spApiRequest_prepare x options w = (Inl e, snd (getAccessToken x w))"
  using assms
  by (cases "getAccessToken x w") (simp add: spApiRequest_prepare_def andThen_def Let_def)

lemma spApiRequest_prepare_after_token:
  assumes "fst (getAccessToken x w) = Inr tok"
  shows "spApiRequest_prepare x options w =
           (case limiterStep x options w of
              (Inl e, w3) \<Rightarrow> (Inl e, w3)
            | (Inr u, w3) \<Rightarrow>
                attempt (urlHost x (endpointOf x)) w3 (\<lambda>h.
                attempt (bodyStringOf x options) w3 (\<lambda>bs.
                attempt (aws4sign x (requestToSign x options tok h bs) (signingCredentials x))
                  (logEvent (Aws4Sign (signingCredentials x)) w3) (\<lambda>signed.
                  (Inr (callToSend x options signed bs),
                   logEvent (Aws4Sign (signingCredentials x)) w3)))))"
  using assms
  unfolding limiterStep_def signingCredentials_def endpointOf_def fullPathOf_def methodOf_def
    bodyStringOf_def requestToSign_def callToSend_def
  by (cases "getAccessToken x w")
     (simp add: spApiRequest_prepare_def andThen_def Let_def getSTSCredentials_value
        split del: if_split)

text \<open>The six ways through \<^verbatim>\<open>spApiRequest\<close>, each with the envelope and the world it ends in.\<close>

lemma spApiRequest_token_failed:
  assumes "fst (getAccessToken x w) = Inl e"
  shows "spApiRequest x options w = (caught e, snd (getAccessToken x w))"
  using spApiRequest_prepare_token_failed [OF assms] by (rule spApiRequest_unprepared)

lemma spApiRequest_limiter_failed:
  assumes "fst (getAccessToken x w) = Inr tok" "fst (limiterStep x options w) = Inl e"
  shows "spApiRequest x options w = (caught e, snd (limiterStep x options w))"
proof -
  from assms(2) have "spApiRequest_prepare x options w = (Inl e, snd (limiterStep x options w))"
    by (cases "limiterStep x options w") (simp add: spApiRequest_prepare_after_token [OF assms(1)])
  then show ?thesis by (rule spApiRequest_unprepared)
qed

lemma spApiRequest_url_failed:
  assumes "fst (getAccessToken x w) = Inr tok" "fst (limiterStep x options w) = Inr u"
    and "urlHost x (endpointOf x) = Inl e"
  shows "spApiRequest x options w = (caught e, snd (limiterStep x options w))"
proof -
  from assms(2,3) have "spApiRequest_prepare x options w = (Inl e, snd (limiterStep x options w))"
    by (cases "limiterStep x options w")
       (simp add: spApiRequest_prepare_after_token [OF assms(1)] attempt_def)
  then show ?thesis by (rule spApiRequest_unprepared)
qed

lemma spApiRequest_body_failed:
  assumes "fst (getAccessToken x w) = Inr tok" "fst (limiterStep x options w) = Inr u"
    and "urlHost x (endpointOf x) = Inr h" "bodyStringOf x options = Inl e"
  shows "spApiRequest x options w = (caught e, snd (limiterStep x options w))"
proof -
  from assms(2,3,4)
  have "spApiRequest_prepare x options w = (Inl e, snd (limiterStep x options w))"
    by (cases "limiterStep x options w")
       (simp add: spApiRequest_prepare_after_token [OF assms(1)] attempt_def)
  then show ?thesis by (rule spApiRequest_unprepared)
qed

lemma spApiRequest_sign_failed:
  assumes "fst (getAccessToken x w) = Inr tok" "fst (limiterStep x options w) = Inr u"
    and "urlHost x (endpointOf x) = Inr h" "bodyStringOf x options = Inr bs"
    and "aws4sign x (requestToSign x options tok h bs) (signingCredentials x) = Inl e"
  shows "spApiRequest x options w
         = (caught e, logEvent (Aws4Sign (signingCredentials x)) (snd (limiterStep x options w)))"
proof -
  from assms(2,3,4,5)
  have "spApiRequest_prepare x options w
        = (Inl e, logEvent (Aws4Sign (signingCredentials x)) (snd (limiterStep x options w)))"
    by (cases "limiterStep x options w")
       (simp add: spApiRequest_prepare_after_token [OF assms(1)] attempt_def)
  then show ?thesis by (rule spApiRequest_unprepared)
qed

lemma spApiRequest_prepare_signed:
  assumes "fst (getAccessToken x w) = Inr tok" "fst (limiterStep x options w) = Inr u"
    and "urlHost x (endpointOf x) = Inr h" "bodyStringOf x options = Inr bs"
    and "aws4sign x (requestToSign x options tok h bs) (signingCredentials x) = Inr signed"
  shows "spApiRequest_prepare x options w
         = (Inr (callToSend x options signed bs),
            logEvent (Aws4Sign (signingCredentials x)) (snd (limiterStep x options w)))"
  using assms(2,3,4,5)
  by (cases "limiterStep x options w")
     (simp add: spApiRequest_prepare_after_token [OF assms(1)] attempt_def)

lemma spApiRequest_sent:
  assumes "fst (getAccessToken x w) = Inr tok" "fst (limiterStep x options w) = Inr u"
    and "urlHost x (endpointOf x) = Inr h" "bodyStringOf x options = Inr bs"
    and "aws4sign x (requestToSign x options tok h bs) (signingCredentials x) = Inr signed"
  shows "spApiRequest x options w
         = (case api x (callToSend x options signed bs) of
              Rejected e \<Rightarrow> caught e
            | Responded r \<Rightarrow> spApiRequest_respond x r,
            elapse (apiLatency x)
              (logEvent (ApiFetch (callToSend x options signed bs))
                 (logEvent (Aws4Sign (signingCredentials x)) (snd (limiterStep x options w)))))"
  using spApiRequest_prepare_signed [OF assms]
  by (cases "api x (callToSend x options signed bs)")
     (simp_all add: spApiRequest_responded spApiRequest_rejected)

text \<open>
  Claim C4, as amended. In every execution of \<^verbatim>\<open>spApiRequest\<close> the steps occur in
  this order, each at most once and each only if the ones before it did not throw: the
  access token is obtained from the token manager (with the refresh exchange when the
  cache is not usable), the signing credentials are obtained, the rate limiter is called
  for the category \<^verbatim>\<open>path.split('/')[1] || 'default'\<close> (with its wait), the request is
  built and signed, the request is sent. A token manager, a rate limiter, a URL, a body or
  a signer that throws ends the run there, with the envelope of the \<^verbatim>\<open>catch\<close> clause and
  the world as that step left it; a step that succeeds is followed by the next one, up to
  the \<^verbatim>\<open>fetch\<close>, which is the last. So the first step is always the token manager, the
  rate limiter is called exactly when the token was obtained, the request is signed
  exactly when the rate limiter returned and the request could be built, and it is sent
  exactly when it was signed.
\<close>

theorem spApiRequest_step_order:
  "(\<forall>e. fst (getAccessToken x w) = Inl e
        \<longrightarrow> spApiRequest x options w = (caught e, snd (getAccessToken x w)))
   \<and> (\<forall>tok e. fst (getAccessToken x w) = Inr tok \<and> fst (limiterStep x options w) = Inl e
        \<longrightarrow> spApiRequest x options w = (caught e, snd (limiterStep x options w)))
   \<and> (\<forall>tok u e. fst (getAccessToken x w) = Inr tok \<and> fst (limiterStep x options w) = Inr u
          \<and> urlHost x (endpointOf x) = Inl e
        \<longrightarrow> spApiRequest x options w = (caught e, snd (limiterStep x options w)))
   \<and> (\<forall>tok u h e. fst (getAccessToken x w) = Inr tok \<and> fst (limiterStep x options w) = Inr u
          \<and> urlHost x (endpointOf x) = Inr h \<and> bodyStringOf x options = Inl e
        \<longrightarrow> spApiRequest x options w = (caught e, snd (limiterStep x options w)))
   \<and> (\<forall>tok u h bs e. fst (getAccessToken x w) = Inr tok
          \<and> fst (limiterStep x options w) = Inr u
          \<and> urlHost x (endpointOf x) = Inr h \<and> bodyStringOf x options = Inr bs
          \<and> aws4sign x (requestToSign x options tok h bs) (signingCredentials x) = Inl e
        \<longrightarrow> spApiRequest x options w
            = (caught e,
               logEvent (Aws4Sign (signingCredentials x)) (snd (limiterStep x options w))))
   \<and> (\<forall>tok u h bs signed. fst (getAccessToken x w) = Inr tok
          \<and> fst (limiterStep x options w) = Inr u
          \<and> urlHost x (endpointOf x) = Inr h \<and> bodyStringOf x options = Inr bs
          \<and> aws4sign x (requestToSign x options tok h bs) (signingCredentials x) = Inr signed
        \<longrightarrow> spApiRequest x options w
            = (case api x (callToSend x options signed bs) of
                 Rejected e \<Rightarrow> caught e
               | Responded r \<Rightarrow> spApiRequest_respond x r,
               elapse (apiLatency x)
                 (logEvent (ApiFetch (callToSend x options signed bs))
                    (logEvent (Aws4Sign (signingCredentials x))
                       (snd (limiterStep x options w))))))
   \<and> (\<exists>evs. trace (snd (spApiRequest x options w)) = trace w @ CallGetAccessToken # evs
         \<and> sorted_wrt (<) (map stage (CallGetAccessToken # evs))
         \<and> (\<forall>c. CallCheckRateLimit c \<in> set evs
                \<longrightarrow> c = apiTypeOf (path options) \<and> CallGetSTSCredentials \<in> set evs
                    \<and> (\<exists>tok. fst (getAccessToken x w) = Inr tok))
         \<and> (\<forall>call. ApiFetch call \<in> set evs
                \<longrightarrow> CallCheckRateLimit (apiTypeOf (path options)) \<in> set evs)
         \<and> (\<forall>tok. fst (getAccessToken x w) = Inr tok
                \<longrightarrow> CallGetSTSCredentials \<in> set evs
                    \<and> CallCheckRateLimit (apiTypeOf (path options)) \<in> set evs)
         \<and> (\<forall>cr. Aws4Sign cr \<in> set evs
                \<longrightarrow> cr = signingCredentials x
                    \<and> (\<exists>tok u h bs. fst (getAccessToken x w) = Inr tok
                          \<and> fst (limiterStep x options w) = Inr u
                          \<and> urlHost x (endpointOf x) = Inr h
                          \<and> bodyStringOf x options = Inr bs))
         \<and> (\<forall>tok u h bs. fst (getAccessToken x w) = Inr tok
                  \<and> fst (limiterStep x options w) = Inr u
                  \<and> urlHost x (endpointOf x) = Inr h \<and> bodyStringOf x options = Inr bs
                \<longrightarrow> Aws4Sign (signingCredentials x) \<in> set evs)
         \<and> (\<forall>call. ApiFetch call \<in> set evs
                \<longleftrightarrow> (\<exists>tok u h bs signed. fst (getAccessToken x w) = Inr tok
                          \<and> fst (limiterStep x options w) = Inr u
                          \<and> urlHost x (endpointOf x) = Inr h
                          \<and> bodyStringOf x options = Inr bs
                          \<and> aws4sign x (requestToSign x options tok h bs)
                                (signingCredentials x) = Inr signed
                          \<and> call = callToSend x options signed bs)))"
proof -
  let ?run = "spApiRequest x options w"
  let ?gat = "getAccessToken x w"
  let ?ls = "limiterStep x options w"
  let ?c = "apiTypeOf (path options)"
  let ?cr = "signingCredentials x"
  let ?E = "\<lambda>evs. trace (snd ?run) = trace w @ CallGetAccessToken # evs
         \<and> sorted_wrt (<) (map stage (CallGetAccessToken # evs))
         \<and> (\<forall>c. CallCheckRateLimit c \<in> set evs
                \<longrightarrow> c = ?c \<and> CallGetSTSCredentials \<in> set evs
                    \<and> (\<exists>tok. fst ?gat = Inr tok))
         \<and> (\<forall>call. ApiFetch call \<in> set evs \<longrightarrow> CallCheckRateLimit ?c \<in> set evs)
         \<and> (\<forall>tok. fst ?gat = Inr tok
                \<longrightarrow> CallGetSTSCredentials \<in> set evs \<and> CallCheckRateLimit ?c \<in> set evs)
         \<and> (\<forall>cr. Aws4Sign cr \<in> set evs
                \<longrightarrow> cr = ?cr
                    \<and> (\<exists>tok u h bs. fst ?gat = Inr tok \<and> fst ?ls = Inr u
                          \<and> urlHost x (endpointOf x) = Inr h
                          \<and> bodyStringOf x options = Inr bs))
         \<and> (\<forall>tok u h bs. fst ?gat = Inr tok \<and> fst ?ls = Inr u
                  \<and> urlHost x (endpointOf x) = Inr h \<and> bodyStringOf x options = Inr bs
                \<longrightarrow> Aws4Sign ?cr \<in> set evs)
         \<and> (\<forall>call. ApiFetch call \<in> set evs
                \<longleftrightarrow> (\<exists>tok u h bs signed. fst ?gat = Inr tok \<and> fst ?ls = Inr u
                          \<and> urlHost x (endpointOf x) = Inr h
                          \<and> bodyStringOf x options = Inr bs
                          \<and> aws4sign x (requestToSign x options tok h bs) ?cr = Inr signed
                          \<and> call = callToSend x options signed bs))"
  have A1: "\<forall>e. fst ?gat = Inl e \<longrightarrow> ?run = (caught e, snd ?gat)"
    by (simp add: spApiRequest_token_failed)
  have A2: "\<forall>tok e. fst ?gat = Inr tok \<and> fst ?ls = Inl e \<longrightarrow> ?run = (caught e, snd ?ls)"
    by (intro allI impI, elim conjE, rule spApiRequest_limiter_failed)
  have A3: "\<forall>tok u e. fst ?gat = Inr tok \<and> fst ?ls = Inr u \<and> urlHost x (endpointOf x) = Inl e
              \<longrightarrow> ?run = (caught e, snd ?ls)"
    by (intro allI impI, elim conjE, rule spApiRequest_url_failed)
  have A4: "\<forall>tok u h e. fst ?gat = Inr tok \<and> fst ?ls = Inr u
              \<and> urlHost x (endpointOf x) = Inr h \<and> bodyStringOf x options = Inl e
              \<longrightarrow> ?run = (caught e, snd ?ls)"
    by (intro allI impI, elim conjE, rule spApiRequest_body_failed)
  have A5: "\<forall>tok u h bs e. fst ?gat = Inr tok \<and> fst ?ls = Inr u
              \<and> urlHost x (endpointOf x) = Inr h \<and> bodyStringOf x options = Inr bs
              \<and> aws4sign x (requestToSign x options tok h bs) ?cr = Inl e
              \<longrightarrow> ?run = (caught e, logEvent (Aws4Sign ?cr) (snd ?ls))"
    by (intro allI impI, elim conjE, rule spApiRequest_sign_failed)
  have A6: "\<forall>tok u h bs signed. fst ?gat = Inr tok \<and> fst ?ls = Inr u
              \<and> urlHost x (endpointOf x) = Inr h \<and> bodyStringOf x options = Inr bs
              \<and> aws4sign x (requestToSign x options tok h bs) ?cr = Inr signed
              \<longrightarrow> ?run
                  = (case api x (callToSend x options signed bs) of
                       Rejected e \<Rightarrow> caught e
                     | Responded r \<Rightarrow> spApiRequest_respond x r,
                     elapse (apiLatency x)
                       (logEvent (ApiFetch (callToSend x options signed bs))
                          (logEvent (Aws4Sign ?cr) (snd ?ls))))"
    by (intro allI impI, elim conjE, rule spApiRequest_sent)
  from getAccessToken_trace [of x w] obtain evs1
    where t1: "trace (snd ?gat) = trace w @ CallGetAccessToken # evs1"
      and e1: "evs1 = [] \<or> evs1 = [IdpExchange (refreshForm x)]" by blast
  from limiterStep_trace [of x options w] obtain evs3
    where t3: "trace (snd ?ls) = trace (snd ?gat) @ [CallGetSTSCredentials, CallCheckRateLimit ?c] @ evs3"
      and e3: "evs3 = [] \<or> (\<exists>d. evs3 = [Suspend d])" by blast
  let ?upto = "evs1 @ [CallGetSTSCredentials, CallCheckRateLimit ?c] @ evs3"
  have s1: "sorted_wrt (<) (map stage (CallGetAccessToken # evs1))"
    using e1 by (auto simp: stage_def)
  have s3: "sorted_wrt (<) (map stage (CallGetAccessToken # ?upto))"
    using e1 e3 by (auto simp: stage_def)
  have s4: "sorted_wrt (<) (map stage (CallGetAccessToken # ?upto @ [Aws4Sign ?cr]))"
    using e1 e3 by (auto simp: stage_def)
  have s5: "sorted_wrt (<) (map stage (CallGetAccessToken # ?upto @ [Aws4Sign ?cr, ApiFetch call]))"
    for call
    using e1 e3 by (auto simp: stage_def)
  have m1: "CallGetSTSCredentials \<notin> set evs1" "\<And>c. CallCheckRateLimit c \<notin> set evs1"
    "\<And>cr. Aws4Sign cr \<notin> set evs1" "\<And>call. ApiFetch call \<notin> set evs1"
    using e1 by auto
  have m3: "\<And>c. CallCheckRateLimit c \<notin> set evs3" "\<And>cr. Aws4Sign cr \<notin> set evs3"
    "\<And>call. ApiFetch call \<notin> set evs3"
    using e3 by auto
  have E: "\<exists>evs. ?E evs"
  proof (cases "fst ?gat")
    case g: (Inl e)
    have r: "?run = (caught e, snd ?gat)" using g by (rule spApiRequest_token_failed)
    have L: "?E evs1"
      by (intro conjI allI impI) (use g s1 m1 in \<open>simp_all add: r t1\<close>)
    show ?thesis by (rule exI [where x = "evs1"]) (rule L)
  next
    case g: (Inr tok)
    show ?thesis
    proof (cases "fst ?ls")
      case l: (Inl e)
      have r: "?run = (caught e, snd ?ls)" using g l by (rule spApiRequest_limiter_failed)
      have L: "?E ?upto"
        by (intro conjI allI impI) (use g l s3 m1 m3 in \<open>simp_all add: r t3 t1\<close>)
      show ?thesis by (rule exI [where x = "?upto"]) (rule L)
    next
      case l: (Inr u)
      show ?thesis
      proof (cases "urlHost x (endpointOf x)")
        case h: (Inl e)
        have r: "?run = (caught e, snd ?ls)" using g l h by (rule spApiRequest_url_failed)
        have L: "?E ?upto"
          by (intro conjI allI impI) (use g l h s3 m1 m3 in \<open>simp_all add: r t3 t1\<close>)
        show ?thesis by (rule exI [where x = "?upto"]) (rule L)
      next
        case h: (Inr hst)
        show ?thesis
        proof (cases "bodyStringOf x options")
          case b: (Inl e)
          have r: "?run = (caught e, snd ?ls)" using g l h b by (rule spApiRequest_body_failed)
          have L: "?E ?upto"
            by (intro conjI allI impI)
               (use g l h b s3 m1 m3 in \<open>simp_all add: r t3 t1\<close>)
          show ?thesis by (rule exI [where x = "?upto"]) (rule L)
        next
          case b: (Inr bs)
          show ?thesis
          proof (cases "aws4sign x (requestToSign x options tok hst bs) ?cr")
            case sg: (Inl e)
            have r: "?run = (caught e, logEvent (Aws4Sign ?cr) (snd ?ls))"
              using g l h b sg by (rule spApiRequest_sign_failed)
            have L: "?E (?upto @ [Aws4Sign ?cr])"
              by (intro conjI allI impI)
                 (use g l h b sg s4 m1 m3 in \<open>simp_all add: r t3 t1 logEvent_def\<close>)
            show ?thesis by (rule exI [where x = "?upto @ [Aws4Sign ?cr]"]) (rule L)
          next
            case sg: (Inr signed)
            let ?call = "callToSend x options signed bs"
            have r: "trace (snd ?run) = trace (snd ?ls) @ [Aws4Sign ?cr, ApiFetch ?call]"
              by (simp add: spApiRequest_sent [OF g l h b sg] logEvent_def elapse_def)
            have L: "?E (?upto @ [Aws4Sign ?cr, ApiFetch ?call])"
              by (intro conjI allI impI)
                 (use g l h b sg s5 [of ?call] m1 m3 in \<open>simp_all add: r t3 t1\<close>)
            show ?thesis by (rule exI [where x = "?upto @ [Aws4Sign ?cr, ApiFetch ?call]"]) (rule L)
          qed
        qed
      qed
    qed
  qed
  from A1 A2 A3 A4 A5 A6 E show ?thesis by (intro conjI)
qed

text \<open>The orders request on a fresh world, step by step, also with another signer.\<close>

lemma stub_run:
  "trace (snd (spApiRequest stubOutside ordersRequest freshWorld))
   = [CallGetAccessToken, IdpExchange (refreshForm stubOutside), CallGetSTSCredentials,
      CallCheckRateLimit ''orders'',
      Aws4Sign \<lparr>accessKeyId = Some '''', secretAccessKey = Some '''', sessionToken = None\<rparr>,
      ApiFetch ordersCall]"
proof -
  have same: "stubOutside\<lparr>api := api stubOutside\<rparr> = stubOutside" by simp
  have r: "api stubOutside ordersCall
           = Responded \<lparr>status = 404, bodyText = ''{\"errors\":[{\"message\":\"not found\"}]}''\<rparr>"
    by (simp add: stubOutside_def)
  from stub_prepare [of "api stubOutside"] r show ?thesis
    by (simp add: same spApiRequest_responded logEvent_def elapse_def)
qed

lemma stub_token:
  "getAccessToken (stubOutside\<lparr>aws4sign := f\<rparr>) freshWorld
   = (Inr ''Atza|token'',
      \<lparr>cachedToken = Some \<lparr>accessToken = ''Atza|token'', expiresAt = 3600120\<rparr>,
       requestTimestamps = Map.empty, clock = 120,
       trace = [CallGetAccessToken, IdpExchange (refreshForm stubOutside)]\<rparr>)"
  by (simp add: getAccessToken_def stubOutside_def freshWorld_def logEvent_def elapse_def
        ok_def Let_def refreshForm_def)

lemma stub_limiter:
  "limiterStep (stubOutside\<lparr>aws4sign := f\<rparr>) ordersRequest freshWorld
   = (Inr (),
      \<lparr>cachedToken = Some \<lparr>accessToken = ''Atza|token'', expiresAt = 3600120\<rparr>,
       requestTimestamps = [''orders'' \<mapsto> [120]], clock = 120,
       trace = [CallGetAccessToken, IdpExchange (refreshForm stubOutside),
                CallGetSTSCredentials, CallCheckRateLimit ''orders'']\<rparr>)"
  by (simp add: limiterStep_def stub_token)
     (simp add: checkRateLimit_def ordersRequest_def apiTypeOf_def objectPrototypeKeys_def
        limitFor_def RATE_LIMITS_def logEvent_def Let_def)

lemma stub_limiter_rejects:
  "limiterStep stubOutside constructorRequest freshWorld
   = (Inl (JsError ''requestTimestamps[apiType].filter is not a function''),
      \<lparr>cachedToken = Some \<lparr>accessToken = ''Atza|token'', expiresAt = 3600120\<rparr>,
       requestTimestamps = Map.empty, clock = 120,
       trace = [CallGetAccessToken, IdpExchange (refreshForm stubOutside),
                CallGetSTSCredentials, CallCheckRateLimit ''constructor'']\<rparr>)"
proof -
  have same: "stubOutside\<lparr>aws4sign := aws4sign stubOutside\<rparr> = stubOutside" by simp
  from stub_token [of "aws4sign stubOutside"] show ?thesis
    by (simp add: same limiterStep_def)
       (simp add: checkRateLimit_def constructorRequest_def apiTypeOf_def
          objectPrototypeKeys_def logEvent_def Let_def)
qed

lemma stub_request_parts:
  "urlHost (stubOutside\<lparr>aws4sign := f\<rparr>) (endpointOf (stubOutside\<lparr>aws4sign := f\<rparr>))
   = Inr ''sellingpartnerapi-na.amazon.com''"
  "bodyStringOf (stubOutside\<lparr>aws4sign := f\<rparr>) ordersRequest = Inr None"
  "signingCredentials (stubOutside\<lparr>aws4sign := f\<rparr>)
   = \<lparr>accessKeyId = Some '''', secretAccessKey = Some '''', sessionToken = None\<rparr>"
  by (simp_all add: endpointOf_def bodyStringOf_def signingCredentials_def hasAWSCredentials_def
        stubOutside_def ordersRequest_def truthyStr_def truthyBody_def)

text \<open>
  Claim C4, as amended, on the complete run of the orders request, on a refused token
  refresh, on a rate limiter that throws, and on a signer that throws.
\<close>

theorem spApiRequest_step_order_witness:
  "sorted_wrt (<) (map stage (trace (snd (spApiRequest stubOutside ordersRequest freshWorld))))
   \<and> hd (trace (snd (spApiRequest stubOutside ordersRequest freshWorld))) = CallGetAccessToken
   \<and> CallCheckRateLimit ''orders''
       \<in> set (trace (snd (spApiRequest stubOutside ordersRequest freshWorld)))
   \<and> apiTypeOf (path ordersRequest) = ''orders''
   \<and> trace (snd (spApiRequest
        (stubOutside\<lparr>idp := (\<lambda>form. Responded \<lparr>status = 400, bodyText = ''invalid_grant''\<rparr>)\<rparr>)
        ordersRequest freshWorld))
     = [CallGetAccessToken, IdpExchange (refreshForm stubOutside)]
   \<and> spApiRequest stubOutside constructorRequest freshWorld
     = (caught (JsError ''requestTimestamps[apiType].filter is not a function''),
        \<lparr>cachedToken = Some \<lparr>accessToken = ''Atza|token'', expiresAt = 3600120\<rparr>,
         requestTimestamps = Map.empty, clock = 120,
         trace = [CallGetAccessToken, IdpExchange (refreshForm stubOutside),
                  CallGetSTSCredentials, CallCheckRateLimit ''constructor'']\<rparr>)
   \<and> trace (snd (spApiRequest
        (stubOutside\<lparr>aws4sign := (\<lambda>r c. Inl (JsError ''cannot sign''))\<rparr>)
        ordersRequest freshWorld))
     = [CallGetAccessToken, IdpExchange (refreshForm stubOutside), CallGetSTSCredentials,
        CallCheckRateLimit ''orders'',
        Aws4Sign \<lparr>accessKeyId = Some '''', secretAccessKey = Some '''', sessionToken = None\<rparr>]
   \<and> trace (snd (spApiRequest stubOutside ordersRequest freshWorld))
     = [CallGetAccessToken, IdpExchange (refreshForm stubOutside), CallGetSTSCredentials,
        CallCheckRateLimit ''orders'',
        Aws4Sign \<lparr>accessKeyId = Some '''', secretAccessKey = Some '''', sessionToken = None\<rparr>,
        ApiFetch ordersCall]"
proof -
  let ?tr = "trace (snd (spApiRequest stubOutside ordersRequest freshWorld))"
  let ?xidp = "stubOutside\<lparr>idp := (\<lambda>form. Responded \<lparr>status = 400, bodyText = ''invalid_grant''\<rparr>)\<rparr>"
  let ?xsign = "stubOutside\<lparr>aws4sign := (\<lambda>r c. Inl (JsError ''cannot sign''))\<rparr>"
  let ?xsame = "stubOutside\<lparr>aws4sign := aws4sign stubOutside\<rparr>"
  let ?empty = "\<lparr>accessKeyId = Some '''', secretAccessKey = Some '''', sessionToken = None\<rparr>"
  have same: "?xsame = stubOutside" by simp
  have e: "trace freshWorld = []" by (simp add: freshWorld_def)
  have c: "apiTypeOf (path ordersRequest) = ''orders''"
    by (simp add: apiTypeOf_def ordersRequest_def)
  from spApiRequest_step_order [of stubOutside freshWorld ordersRequest] obtain evs
    where t: "?tr = trace freshWorld @ CallGetAccessToken # evs"
      and s: "sorted_wrt (<) (map stage (CallGetAccessToken # evs))"
    by (elim exE conjE)
  from t e have t': "?tr = CallGetAccessToken # evs" by simp
  have a: "sorted_wrt (<) (map stage ?tr)" unfolding t' by (rule s)
  have b: "hd ?tr = CallGetAccessToken" unfolding t' by simp
  have g400: "getAccessToken ?xidp freshWorld
              = (Inl (JsError ''Failed to refresh token: invalid_grant''),
                 \<lparr>cachedToken = None, requestTimestamps = Map.empty, clock = 120,
                  trace = [CallGetAccessToken, IdpExchange (refreshForm stubOutside)]\<rparr>)"
    by (simp add: getAccessToken_def stubOutside_def freshWorld_def logEvent_def elapse_def
          ok_def Let_def refreshForm_def)
  from spApiRequest_step_order [of ?xidp freshWorld ordersRequest] g400
  have two: "trace (snd (spApiRequest ?xidp ordersRequest freshWorld))
             = [CallGetAccessToken, IdpExchange (refreshForm stubOutside)]"
    by simp
  from spApiRequest_step_order [of stubOutside freshWorld constructorRequest]
    stub_token [of "aws4sign stubOutside"] stub_limiter_rejects
  have three: "spApiRequest stubOutside constructorRequest freshWorld
     = (caught (JsError ''requestTimestamps[apiType].filter is not a function''),
        \<lparr>cachedToken = Some \<lparr>accessToken = ''Atza|token'', expiresAt = 3600120\<rparr>,
         requestTimestamps = Map.empty, clock = 120,
         trace = [CallGetAccessToken, IdpExchange (refreshForm stubOutside),
                  CallGetSTSCredentials, CallCheckRateLimit ''constructor'']\<rparr>)"
    by (simp add: same)
  have sg: "aws4sign ?xsign
              (requestToSign ?xsign ordersRequest ''Atza|token''
                 ''sellingpartnerapi-na.amazon.com'' None) ?empty
            = Inl (JsError ''cannot sign'')"
    by simp
  from spApiRequest_step_order [of ?xsign freshWorld ordersRequest]
    stub_token [of "\<lambda>r c. Inl (JsError ''cannot sign'')"]
    stub_limiter [of "\<lambda>r c. Inl (JsError ''cannot sign'')"]
    stub_request_parts [of "\<lambda>r c. Inl (JsError ''cannot sign'')"] sg
  have four: "trace (snd (spApiRequest ?xsign ordersRequest freshWorld))
     = [CallGetAccessToken, IdpExchange (refreshForm stubOutside), CallGetSTSCredentials,
        CallCheckRateLimit ''orders'', Aws4Sign ?empty]"
    by (simp add: logEvent_def)
  have five: "?tr
     = [CallGetAccessToken, IdpExchange (refreshForm stubOutside), CallGetSTSCredentials,
        CallCheckRateLimit ''orders'', Aws4Sign ?empty, ApiFetch ordersCall]"
    by (rule stub_run)
  have d: "CallCheckRateLimit ''orders'' \<in> set ?tr" by (simp add: five)
  from a b c d two three four five show ?thesis by (intro conjI)
qed

text \<open>
  Claim C4 as it is stated has the rate limiter called before the token is obtained. On
  that run no call of the rate limiter is followed by the call of the token manager: the
  token manager is called first, and the rate limiter after it.
\<close>

theorem throttle_not_before_token:
  "\<not> followedBy isThrottle isTokenFetch
       (trace (snd (spApiRequest stubOutside ordersRequest freshWorld)))
   \<and> followedBy isTokenFetch isThrottle
       (trace (snd (spApiRequest stubOutside ordersRequest freshWorld)))"
  by (simp add: stub_run isThrottle_def isTokenFetch_def)

section \<open>The executor: the signature\<close>

text \<open>
  Whenever the preparation succeeds, the headers of the call are the headers that
  \<^verbatim>\<open>aws4.sign\<close> returned for the credentials of \<^verbatim>\<open>getSTSCredentials\<close>, whether
  they are empty or not.
\<close>

lemma spApiRequest_always_signs:
  assumes "spApiRequest_prepare x options w = (Inr call, w1)"
  shows "\<exists>req signed.
           aws4sign x req
             (if hasAWSCredentials x then staticKeyPair x
              else \<lparr>accessKeyId = Some '''', secretAccessKey = Some '''', sessionToken = None\<rparr>)
             = Inr signed
           \<and> call_headers call = aws_headers signed"
proof -
  define creds where
    "creds = (if hasAWSCredentials x then staticKeyPair x
              else \<lparr>accessKeyId = Some '''', secretAccessKey = Some '''', sessionToken = None\<rparr>)"
  have s: "getSTSCredentials x v = (Inr creds, logEvent CallGetSTSCredentials v)" for v
    unfolding creds_def by (rule getSTSCredentials_value)
  obtain r1 w' where g: "getAccessToken x w = (r1, w')" by force
  obtain r3 w3 where c: "checkRateLimit x (apiTypeOf (path options))
                           (logEvent CallGetSTSCredentials w') = (r3, w3)" by force
  have "\<exists>req signed. aws4sign x req creds = Inr signed \<and> call_headers call = aws_headers signed"
  proof (cases r1)
    case (Inl e)
    with assms g show ?thesis
      by (simp add: spApiRequest_prepare_def andThen_def Let_def)
  next
    case tok: (Inr tok)
    show ?thesis
    proof (cases r3)
      case (Inl e)
      with assms g tok c show ?thesis
        by (simp add: spApiRequest_prepare_def andThen_def Let_def s)
    next
      case (Inr u)
      with assms g tok c show ?thesis
        by (fastforce simp: spApiRequest_prepare_def andThen_def attempt_def Let_def s
              split: sum.splits)
    qed
  qed
  then show ?thesis by (simp add: creds_def)
qed

text \<open>
  Claim C5, where the code departs from it. With no AWS key pair configured,
  \<^verbatim>\<open>getSTSCredentials\<close> returns the empty credentials (its comment: "Return dummy
  credentials - we'll skip AWS signing") and \<^verbatim>\<open>hasAWSCredentials\<close> is false, yet
  \<^verbatim>\<open>spApiRequest\<close> calls \<^verbatim>\<open>aws4.sign\<close> with these credentials and sends the headers
  that \<^verbatim>\<open>aws4.sign\<close> returned: the call is not guarded by any test of the credentials.
\<close>

theorem spApiRequest_signs_with_empty_credentials:
  "\<not> hasAWSCredentials stubOutside
   \<and> fst (getSTSCredentials stubOutside freshWorld)
     = Inr \<lparr>accessKeyId = Some '''', secretAccessKey = Some '''', sessionToken = None\<rparr>
   \<and> trace (snd (spApiRequest stubOutside ordersRequest freshWorld))
     = [CallGetAccessToken, IdpExchange (refreshForm stubOutside), CallGetSTSCredentials,
        CallCheckRateLimit ''orders'',
        Aws4Sign \<lparr>accessKeyId = Some '''', secretAccessKey = Some '''', sessionToken = None\<rparr>,
        ApiFetch ordersCall]
   \<and> call_headers ordersCall
     = [(''Content-Type'', ''application/json''), (''x-amz-access-token'', ''Atza|token''),
        (''Authorization'', ''AWS4-HMAC-SHA256 Credential='')]"
proof -
  have a: "\<not> hasAWSCredentials stubOutside"
    by (simp add: hasAWSCredentials_def stubOutside_def truthyStr_def)
  have b: "fst (getSTSCredentials stubOutside freshWorld)
     = Inr \<lparr>accessKeyId = Some '''', secretAccessKey = Some '''', sessionToken = None\<rparr>"
    by (simp add: getSTSCredentials_def stubOutside_def truthyStr_def Let_def)
  have c: "call_headers ordersCall
     = [(''Content-Type'', ''application/json''), (''x-amz-access-token'', ''Atza|token''),
        (''Authorization'', ''AWS4-HMAC-SHA256 Credential='')]"
    by (simp add: ordersCall_def)
  from a b c stub_run show ?thesis by simp
qed

end
